theory Spec2Isabelle
  imports Main "HOL-Library.Word"
begin

section \<open>Errors\<close>

text \<open>
  The Go programs return values of the interface \<open>error\<close>. Three kinds occur:
  plain messages (\<open>fmt.Errorf\<close> without \<open>%w\<close>, that is \<open>errors.New\<close> of the
  formatted text), status errors of the API server (which carry a reason that
  \<open>errors.IsConflict\<close> and \<open>errors.IsNotFound\<close> inspect), and a run-time panic
  (a nil dereference), which ends the process and is kept as a value of its own so
  that it stays a visible branch of the model.
\<close>

datatype StatusReason = StatusReasonNotFound | StatusReasonConflict | StatusReasonOther

datatype error =
    ErrorString string
  | StatusError StatusReason string
  | Panic string

fun Error :: "error \<Rightarrow> string" where
  "Error (ErrorString s) = s"
| "Error (StatusError r s) = s"
| "Error (Panic s) = s"

fun IsConflict :: "error \<Rightarrow> bool" where
  "IsConflict (StatusError StatusReasonConflict s) = True"
| "IsConflict e = False"

fun IsNotFound :: "error \<Rightarrow> bool" where
  "IsNotFound (StatusError StatusReasonNotFound s) = True"
| "IsNotFound e = False"

text \<open>\<open>fmt.Errorf(prefix + "%v", err)\<close>: the text of \<open>err\<close> is pasted into a new
  plain error; the status of \<open>err\<close> is lost.\<close>

definition Errorf_v :: "string \<Rightarrow> error \<Rightarrow> error" where
  "Errorf_v prefix err = ErrorString (prefix @ Error err)"

definition nil_dereference :: error where
  "nil_dereference = Panic ''invalid memory address or nil pointer dereference''"

section \<open>The remote object store\<close>

text \<open>
  Modelled from the spec: the cluster API server behind \<open>Get\<close> and \<open>Update\<close> of
  client-go (sections 2, 3 and 6 of the specification) is not part of the repository.
  An object carries its name and a resource version. \<open>Get\<close> answers with the stored
  object or a not-found status. \<open>Update\<close> stores the object it is given only when
  the version the object carries is the stored one, and then advances the version; a
  stale version is answered with a conflict status and nothing is stored.

  The environment is scripted: every call of the client first takes the next pending
  event. \<open>Proceed\<close> lets the call through, \<open>Fail e\<close> makes it fail with \<open>e\<close>
  (transport, authorisation or server errors), \<open>Rival f\<close> lets another writer
  update the addressed object (advancing its version) just before the call is served.
  With no event pending the call goes through.

  Two fields are observers only: \<open>requests\<close> lists the calls the tool has sent, and
  \<open>landed\<close> counts the updates of the tool that the store accepted.
\<close>

record ObjectMeta =
  Name :: string
  ResourceVersion :: nat

datatype request = GET string string | PUT string string

datatype 'obj event = Proceed | Fail error | Rival "'obj \<Rightarrow> 'obj"

record 'obj cluster =
  objects :: "string \<times> string \<Rightarrow> 'obj option"
  pending :: "'obj event list"
  requests :: "request list"
  landed :: nat

definition NewNotFound :: "string \<Rightarrow> error" where
  "NewNotFound name = StatusError StatusReasonNotFound (name @ '' not found'')"

definition NewConflict :: "string \<Rightarrow> error" where
  "NewConflict name = StatusError StatusReasonConflict
     (''Operation cannot be fulfilled on '' @ name @ '': the object has been modified'')"

definition next_event ::
  "('m ObjectMeta_scheme) cluster \<Rightarrow> ('m ObjectMeta_scheme) event \<times> ('m ObjectMeta_scheme) cluster" where
  "next_event w = (case pending w of [] \<Rightarrow> (Proceed, w) | ev # evs \<Rightarrow> (ev, w\<lparr>pending := evs\<rparr>))"

definition rival_write ::
  "string \<times> string \<Rightarrow> ('m ObjectMeta_scheme) event \<Rightarrow> ('m ObjectMeta_scheme) cluster
     \<Rightarrow> ('m ObjectMeta_scheme) cluster" where
  "rival_write key ev w =
     (case ev of
        Rival f \<Rightarrow>
          (case objects w key of
             None \<Rightarrow> w
           | Some cur \<Rightarrow>
               w\<lparr>objects := (objects w)(key \<mapsto>
                   (f cur)\<lparr>Name := Name cur, ResourceVersion := Suc (ResourceVersion cur)\<rparr>)\<rparr>)
      | _ \<Rightarrow> w)"

text \<open>Modelled from the spec: \<open>get(kind, namespace, name)\<close> of the store client, which
  answers with the object or with a not-found status (the client code is in client-go).\<close>

definition Get ::
  "string \<Rightarrow> string \<Rightarrow> ('m ObjectMeta_scheme) cluster
     \<Rightarrow> (error + 'm ObjectMeta_scheme) \<times> ('m ObjectMeta_scheme) cluster" where
  "Get ns name w =
     (case next_event w of
        (ev, w1) \<Rightarrow>
          (let w2 = w1\<lparr>requests := requests w1 @ [GET ns name]\<rparr> in
           case ev of
             Fail err \<Rightarrow> (Inl err, w2)
           | _ \<Rightarrow>
               (let w3 = rival_write (ns, name) ev w2 in
                case objects w3 (ns, name) of
                  None \<Rightarrow> (Inl (NewNotFound name), w3)
                | Some obj \<Rightarrow> (Inr obj, w3))))"

text \<open>Modelled from the spec: \<open>update(kind, namespace, object)\<close> of the store client,
  which answers with the stored object, a conflict status for a stale version, or another
  error (the client code is in client-go).\<close>

definition Update ::
  "string \<Rightarrow> 'm ObjectMeta_scheme \<Rightarrow> ('m ObjectMeta_scheme) cluster
     \<Rightarrow> (error + 'm ObjectMeta_scheme) \<times> ('m ObjectMeta_scheme) cluster" where
  "Update ns obj w =
     (case next_event w of
        (ev, w1) \<Rightarrow>
          (let w2 = w1\<lparr>requests := requests w1 @ [PUT ns (Name obj)]\<rparr> in
           case ev of
             Fail err \<Rightarrow> (Inl err, w2)
           | _ \<Rightarrow>
               (let w3 = rival_write (ns, Name obj) ev w2 in
                case objects w3 (ns, Name obj) of
                  None \<Rightarrow> (Inl (NewNotFound (Name obj)), w3)
                | Some cur \<Rightarrow>
                    if ResourceVersion obj \<noteq> ResourceVersion cur
                    then (Inl (NewConflict (Name obj)), w3)
                    else
                      (let stored = obj\<lparr>ResourceVersion := Suc (ResourceVersion cur)\<rparr> in
                       (Inr stored,
                        w3\<lparr>objects := (objects w3)((ns, Name obj) \<mapsto> stored),
                           landed := Suc (landed w3)\<rparr>)))))"

section \<open>Retry on conflict\<close>

text \<open>
  Modelled from the spec: \<open>retry.RetryOnConflict\<close> and \<open>retry.DefaultRetry\<close> belong
  to the library client-go, not to the repository. Section 4.1 of the specification
  and the comment the sources keep above every call (\<open>Steps: 5, Duration: 10ms,
  Factor: 1.0, Jitter: 0.1\<close>) describe them: the function is run at most \<open>Steps\<close>
  times; a nil result ends the loop with success; an error that is not retriable ends
  it with that error; a retriable error is remembered and, after a pause, the
  function is run again; when the steps are used up the last remembered error is the
  result. The pauses are real time and are not modelled: whatever other writers do
  meanwhile is an event of the store.
\<close>

record Backoff =
  Steps :: nat

definition DefaultRetry :: Backoff where
  "DefaultRetry = \<lparr>Steps = 5\<rparr>"

text \<open>Modelled from the spec: the loop of \<open>retry.RetryOnConflict\<close> (client-go), with the
  number of steps that remain and the last retriable error.\<close>

fun OnError_loop ::
  "nat \<Rightarrow> (error \<Rightarrow> bool) \<Rightarrow> ('w \<Rightarrow> error option \<times> 'w) \<Rightarrow> error option \<Rightarrow> 'w
     \<Rightarrow> error option \<times> 'w" where
  "OnError_loop 0 retriable fn lastErr w = (lastErr, w)"
| "OnError_loop (Suc n) retriable fn lastErr w =
     (case fn w of
        (None, w') \<Rightarrow> (None, w')
      | (Some err, w') \<Rightarrow>
          if retriable err then OnError_loop n retriable fn (Some err) w'
          else (Some err, w'))"

text \<open>Modelled from the spec: \<open>retry.RetryOnConflict\<close> (client-go) retries on
  \<open>errors.IsConflict\<close> only.\<close>

definition RetryOnConflict ::
  "Backoff \<Rightarrow> ('w \<Rightarrow> error option \<times> 'w) \<Rightarrow> 'w \<Rightarrow> error option \<times> 'w" where
  "RetryOnConflict backoff fn w = OnError_loop (Steps backoff) IsConflict fn None w"

section \<open>Local configuration\<close>

text \<open>
  What \<open>genericclioptions.ConfigFlags\<close> yields on the machine the plugin runs on:
  the value of the \<open>--namespace\<close> flag (empty when the flag is absent), the REST
  configuration and the raw kubeconfig, each of which may fail to load.
  \<open>Contexts\<close> is a Go map to pointers: a context that is missing reads as nil.
  \<open>kubernetes.NewForConfig\<close> may refuse a configuration.
\<close>

type_synonym int32 = "32 word"

record Context =
  ctx_Namespace :: string

record Config =
  Contexts :: "string \<Rightarrow> Context option"
  CurrentContext :: string

datatype RESTConfig = RESTConfig (NewForConfig: "error option")

record ConfigFlags =
  Namespace :: string
  ToRESTConfig :: "error + RESTConfig"
  RawConfig :: "error + Config"

record Options =
  configFlags :: ConfigFlags
  args :: "string list"

section \<open>The Deployment editor (edit\_deploy/kubectl-edit\_deploy.go)\<close>

text \<open>
  \<open>Replicas\<close> and \<open>RevisionHistoryLimit\<close> are pointers to \<open>int32\<close> in the Go
  type; \<open>None\<close> is the nil pointer. \<open>Template\<close> stands for the rest of the
  specification of a Deployment, which the editor never looks at.
\<close>

record DeploymentSpec =
  Replicas :: "int32 option"
  RevisionHistoryLimit :: "int32 option"
  Template :: string

record Deployment = ObjectMeta +
  Spec :: DeploymentSpec

datatype DeploymentInterface = Deployments string

record EditDeployOptions = Options +
  deploymentsClient :: "DeploymentInterface option"
  newReplicas :: int32
  newRhl :: int32
  deploymentName :: string

text \<open>The command line after cobra has parsed it: the positional arguments and the
  values of \<open>--replicas\<close> and \<open>--rhl\<close> where they were given.\<close>

record Arguments =
  positional :: "string list"
  replicas :: "int32 option"
  rhl :: "int32 option"

definition NewEditDeploymentOptions :: "ConfigFlags \<Rightarrow> EditDeployOptions" where
  "NewEditDeploymentOptions cf =
     \<lparr>configFlags = cf, args = [], deploymentsClient = None,
      newReplicas = 0, newRhl = 0, deploymentName = []\<rparr>"

text \<open>Lines 117 to 129: the value of the local variable \<open>userSpecifiedNamespace\<close>
  when the client is created.\<close>

definition userSpecifiedNamespace :: "ConfigFlags \<Rightarrow> Config \<Rightarrow> error + string" where
  "userSpecifiedNamespace cf rawconfig =
     (let ns0 = Namespace cf in
      case (if length ns0 = 0
            then (case Contexts rawconfig (CurrentContext rawconfig) of
                    None \<Rightarrow> Inl nil_dereference
                  | Some c \<Rightarrow> Inr (ctx_Namespace c))
            else Inr ns0) of
        Inl p \<Rightarrow> Inl p
      | Inr ns1 \<Rightarrow> Inr (if length ns1 = 0 then ''Default'' else ns1))"

definition Complete ::
  "string list \<Rightarrow> EditDeployOptions \<Rightarrow> Deployment cluster
     \<Rightarrow> error option \<times> EditDeployOptions \<times> Deployment cluster" where
  "Complete args0 o0 w =
     (let o1 = o0\<lparr>args := args0\<rparr>;
          o2 = (if length args0 > 0 then o1\<lparr>deploymentName := args0 ! 0\<rparr> else o1)
      in
      if length (deploymentName o2) = 0
      then (Some (ErrorString ''deployment name not specified''), o2, w)
      else
       (case ToRESTConfig (configFlags o2) of
          Inl err \<Rightarrow> (Some err, o2, w)
        | Inr config \<Rightarrow>
        (case RawConfig (configFlags o2) of
          Inl err \<Rightarrow> (Some err, o2, w)
        | Inr rawconfig \<Rightarrow>
        (case NewForConfig config of
          Some err \<Rightarrow> (Some err, o2, w)
        | None \<Rightarrow>
        (case userSpecifiedNamespace (configFlags o2) rawconfig of
          Inl p \<Rightarrow> (Some p, o2, w)
        | Inr ns \<Rightarrow>
           (let o3 = o2\<lparr>deploymentsClient := Some (Deployments ns)\<rparr> in
            case Get ns (deploymentName o3) w of
              (Inl getErr, w1) \<Rightarrow> (Some getErr, o3, w1)
            | (Inr result, w1) \<Rightarrow>
               (case (if sint (newReplicas o3) \<le> 0
                      then (case Replicas (Spec result) of
                              None \<Rightarrow> Inl nil_dereference
                            | Some r \<Rightarrow> Inr (o3\<lparr>newReplicas := r\<rparr>))
                      else Inr o3) of
                  Inl p \<Rightarrow> (Some p, o3, w1)
                | Inr o4 \<Rightarrow>
                   (if sint (newRhl o4) < 0
                    then (case RevisionHistoryLimit (Spec result) of
                            None \<Rightarrow> (Some nil_dereference, o4, w1)
                          | Some h \<Rightarrow> (None, o4\<lparr>newRhl := h\<rparr>, w1))
                    else (None, o4, w1)))))))))"

definition Validate :: "EditDeployOptions \<Rightarrow> error option" where
  "Validate opts =
     (if length (args opts) \<noteq> 1 then Some (ErrorString ''only one argument is allowed'')
      else if sint (newReplicas opts) \<le> 0 then Some (ErrorString ''invalid number of replicas'')
      else if sint (newRhl opts) < 0
        then Some (ErrorString ''invalid value of RevisionHistoryLimit'')
      else None)"

text \<open>The function literal that \<open>Run\<close> hands to \<open>RetryOnConflict\<close>: one attempt.\<close>

definition Run_func1 ::
  "DeploymentInterface \<Rightarrow> EditDeployOptions \<Rightarrow> Deployment cluster
     \<Rightarrow> error option \<times> Deployment cluster" where
  "Run_func1 client opts w =
     (case client of Deployments ns \<Rightarrow>
       (case Get ns (deploymentName opts) w of
          (Inl getErr, w1) \<Rightarrow>
            (Some (Errorf_v ''failed to get latest version fo Deployment: '' getErr), w1)
        | (Inr result, w1) \<Rightarrow>
            (let result' = result\<lparr>Spec := (Spec result)\<lparr>Replicas := Some (newReplicas opts),
                                     RevisionHistoryLimit := Some (newRhl opts)\<rparr>\<rparr>
             in case Update ns result' w1 of
                  (Inl updateErr, w2) \<Rightarrow> (Some updateErr, w2)
                | (Inr updated, w2) \<Rightarrow> (None, w2))))"

text \<open>\<open>Run\<close>. A nil \<open>deploymentsClient\<close> panics in the first attempt, before any
  request is sent; the model decides that case first. Printing the confirmation line
  is left out.\<close>

definition Run :: "EditDeployOptions \<Rightarrow> Deployment cluster \<Rightarrow> error option \<times> Deployment cluster" where
  "Run opts w =
     (case deploymentsClient opts of
        None \<Rightarrow> (Some nil_dereference, w)
      | Some client \<Rightarrow>
         (case RetryOnConflict DefaultRetry (Run_func1 client opts) w of
            (Some retryErr, w') \<Rightarrow> (Some (Errorf_v ''update failed: '' retryErr), w')
          | (None, w') \<Rightarrow> (None, w')))"

text \<open>The \<open>RunE\<close> function of the command: \<open>Complete\<close>, \<open>Validate\<close>, \<open>Run\<close>.\<close>

definition RunE ::
  "EditDeployOptions \<Rightarrow> string list \<Rightarrow> Deployment cluster \<Rightarrow> error option \<times> Deployment cluster" where
  "RunE o0 args0 w =
     (case Complete args0 o0 w of
        (Some err, o1, w1) \<Rightarrow> (Some err, w1)
      | (None, o1, w1) \<Rightarrow>
         (case Validate o1 of
            Some err \<Rightarrow> (Some err, w1)
          | None \<Rightarrow> Run o1 w1))"

text \<open>\<open>NewCmdEdit\<close> registers \<open>--replicas\<close> with the default \<open>o.newReplicas\<close> (zero)
  and \<open>--rhl\<close> with the default \<open>-1\<close>; executing the command stores the parsed values
  and calls \<open>RunE\<close>.\<close>

definition NewCmdEdit ::
  "ConfigFlags \<Rightarrow> Arguments \<Rightarrow> Deployment cluster \<Rightarrow> error option \<times> Deployment cluster" where
  "NewCmdEdit cf line w =
     (let o0 = NewEditDeploymentOptions cf;
          o1 = o0\<lparr>newReplicas := (case replicas line of None \<Rightarrow> newReplicas o0 | Some v \<Rightarrow> v),
                  newRhl := (case rhl line of None \<Rightarrow> - 1 | Some v \<Rightarrow> v)\<rparr>
      in RunE o1 (positional line) w)"

text \<open>\<open>main\<close>: the exit status of the process is 1 when the command returns an error
  (\<open>os.Exit(1)\<close>). A panic never returns to \<open>main\<close>: the Go run time ends the process
  with status 2.\<close>

definition main :: "ConfigFlags \<Rightarrow> Arguments \<Rightarrow> Deployment cluster \<Rightarrow> nat \<times> Deployment cluster" where
  "main cf line w =
     (case NewCmdEdit cf line w of
        (Some err, w') \<Rightarrow> (case err of Panic s \<Rightarrow> (2, w') | _ \<Rightarrow> (1, w'))
      | (None, w') \<Rightarrow> (0, w'))"

section \<open>The earlier Deployment editor (unnamed/part\_000)\<close>

text \<open>
  The second source of the editor has the same options and the same \<open>Validate\<close>. It
  differs in four places: \<open>--rhl\<close> has the default \<open>o.newRhl\<close> (zero); the namespace
  has no fixed fall-back; \<open>Complete\<close> asks \<open>isFlagPassed\<close> whether a flag was given;
  \<open>Run\<close> builds a client of its own and writes the replica count only.

  \<open>isFlagPassed\<close> walks, with \<open>flag.Visit\<close> of Go's standard package \<open>flag\<close>, the
  flags that have been set in \<open>flag.CommandLine\<close>. \<open>FlagSet\<close> keeps the names of
  those flags. \<open>main\<close> replaces \<open>flag.CommandLine\<close> by a new, empty set, and nothing
  in the program parses or sets a flag of that set: cobra parses the command line into
  the flag set of the command, which is a different object.
\<close>

record FlagSet =
  actual :: "string list"

definition NewFlagSet :: FlagSet where
  "NewFlagSet = \<lparr>actual = []\<rparr>"

definition isFlagPassed :: "FlagSet \<Rightarrow> string \<Rightarrow> bool" where
  "isFlagPassed CommandLine name =
     fold (\<lambda>f found. if f = name then True else found) (actual CommandLine) False"

definition userSpecifiedNamespace_000 :: "ConfigFlags \<Rightarrow> Config \<Rightarrow> error + string" where
  "userSpecifiedNamespace_000 cf rawconfig =
     (let ns0 = Namespace cf in
      if length ns0 = 0
      then (case Contexts rawconfig (CurrentContext rawconfig) of
              None \<Rightarrow> Inl nil_dereference
            | Some c \<Rightarrow> Inr (ctx_Namespace c))
      else Inr ns0)"

definition Complete_000 ::
  "FlagSet \<Rightarrow> string list \<Rightarrow> EditDeployOptions \<Rightarrow> Deployment cluster
     \<Rightarrow> error option \<times> EditDeployOptions \<times> Deployment cluster" where
  "Complete_000 CommandLine args0 o0 w =
     (let o1 = o0\<lparr>args := args0\<rparr>;
          o2 = (if length args0 > 0 then o1\<lparr>deploymentName := args0 ! 0\<rparr> else o1)
      in
      if length (deploymentName o2) = 0
      then (Some (ErrorString ''deployment name not specified''), o2, w)
      else
       (case ToRESTConfig (configFlags o2) of
          Inl err \<Rightarrow> (Some err, o2, w)
        | Inr config \<Rightarrow>
        (case RawConfig (configFlags o2) of
          Inl err \<Rightarrow> (Some err, o2, w)
        | Inr rawconfig \<Rightarrow>
        (case NewForConfig config of
          Some err \<Rightarrow> (Some err, o2, w)
        | None \<Rightarrow>
        (case userSpecifiedNamespace_000 (configFlags o2) rawconfig of
          Inl p \<Rightarrow> (Some p, o2, w)
        | Inr ns \<Rightarrow>
           (let o3 = o2\<lparr>deploymentsClient := Some (Deployments ns)\<rparr> in
            case Get ns (deploymentName o3) w of
              (Inl getErr, w1) \<Rightarrow> (Some getErr, o3, w1)
            | (Inr result, w1) \<Rightarrow>
               (case (if \<not> isFlagPassed CommandLine ''replicas''
                      then (case Replicas (Spec result) of
                              None \<Rightarrow> Inl nil_dereference
                            | Some r \<Rightarrow> Inr (o3\<lparr>newReplicas := r\<rparr>))
                      else Inr o3) of
                  Inl p \<Rightarrow> (Some p, o3, w1)
                | Inr o4 \<Rightarrow>
                   (if \<not> isFlagPassed CommandLine ''rhl''
                    then (case RevisionHistoryLimit (Spec result) of
                            None \<Rightarrow> (Some nil_dereference, o4, w1)
                          | Some h \<Rightarrow> (None, o4\<lparr>newRhl := h\<rparr>, w1))
                    else (None, o4, w1)))))))))"

definition Run_000_func1 ::
  "DeploymentInterface \<Rightarrow> EditDeployOptions \<Rightarrow> Deployment cluster
     \<Rightarrow> error option \<times> Deployment cluster" where
  "Run_000_func1 client opts w =
     (case client of Deployments ns \<Rightarrow>
       (case Get ns (deploymentName opts) w of
          (Inl getErr, w1) \<Rightarrow>
            (Some (Errorf_v ''failed to get latest version fo Deployment: '' getErr), w1)
        | (Inr result, w1) \<Rightarrow>
            (let result' = result\<lparr>Spec := (Spec result)\<lparr>Replicas := Some (newReplicas opts)\<rparr>\<rparr>
             in case Update ns result' w1 of
                  (Inl updateErr, w2) \<Rightarrow> (Some updateErr, w2)
                | (Inr updated, w2) \<Rightarrow> (None, w2))))"

definition Run_000 ::
  "EditDeployOptions \<Rightarrow> Deployment cluster \<Rightarrow> error option \<times> Deployment cluster" where
  "Run_000 opts w =
     (if length (deploymentName opts) > 0 \<and> 0 < sint (newReplicas opts)
      then
       (case ToRESTConfig (configFlags opts) of
          Inl err \<Rightarrow> (Some err, w)
        | Inr config \<Rightarrow>
        (case RawConfig (configFlags opts) of
          Inl err \<Rightarrow> (Some err, w)
        | Inr rawconfig \<Rightarrow>
        (case NewForConfig config of
          Some err \<Rightarrow> (Some err, w)
        | None \<Rightarrow>
        (case userSpecifiedNamespace_000 (configFlags opts) rawconfig of
          Inl p \<Rightarrow> (Some p, w)
        | Inr ns \<Rightarrow>
           (case RetryOnConflict DefaultRetry (Run_000_func1 (Deployments ns) opts) w of
              (Some retryErr, w') \<Rightarrow> (Some (Errorf_v ''update failed: '' retryErr), w')
            | (None, w') \<Rightarrow> (None, w'))))))
      else (None, w))"

definition RunE_000 ::
  "FlagSet \<Rightarrow> EditDeployOptions \<Rightarrow> string list \<Rightarrow> Deployment cluster
     \<Rightarrow> error option \<times> Deployment cluster" where
  "RunE_000 CommandLine o0 args0 w =
     (case Complete_000 CommandLine args0 o0 w of
        (Some err, o1, w1) \<Rightarrow> (Some err, w1)
      | (None, o1, w1) \<Rightarrow>
         (case Validate o1 of
            Some err \<Rightarrow> (Some err, w1)
          | None \<Rightarrow> Run_000 o1 w1))"

definition NewCmdEdit_000 ::
  "FlagSet \<Rightarrow> ConfigFlags \<Rightarrow> Arguments \<Rightarrow> Deployment cluster
     \<Rightarrow> error option \<times> Deployment cluster" where
  "NewCmdEdit_000 CommandLine cf line w =
     (let o0 = NewEditDeploymentOptions cf;
          o1 = o0\<lparr>newReplicas := (case replicas line of None \<Rightarrow> newReplicas o0 | Some v \<Rightarrow> v),
                  newRhl := (case rhl line of None \<Rightarrow> newRhl o0 | Some v \<Rightarrow> v)\<rparr>
      in RunE_000 CommandLine o1 (positional line) w)"

definition main_000 ::
  "ConfigFlags \<Rightarrow> Arguments \<Rightarrow> Deployment cluster \<Rightarrow> nat \<times> Deployment cluster" where
  "main_000 cf line w =
     (let flags = NewFlagSet in
      case NewCmdEdit_000 flags cf line w of
        (Some err, w') \<Rightarrow> (case err of Panic s \<Rightarrow> (2, w') | _ \<Rightarrow> (1, w'))
      | (None, w') \<Rightarrow> (0, w'))"

section \<open>The ClusterRole editor (edit\_cr/kubectl-edit\_cr.go)\<close>

text \<open>
  A ClusterRole is cluster-scoped: the store keeps it under the empty namespace. The
  options struct of this program is also called \<open>EditDeployOptions\<close> in its source.
  \<open>strings.Split\<close> is the library function; every call of the program passes the
  one-character separator \<open>","\<close>, so the separator of the model is a character. The
  pieces between the separators are returned, and a text without separator is returned
  whole as the only piece.
\<close>

fun Split :: "string \<Rightarrow> char \<Rightarrow> string list" where
  "Split [] sep = [[]]"
| "Split (c # cs) sep =
     (if c = sep then [] # Split cs sep
      else (case Split cs sep of
              [] \<Rightarrow> [[c]]
            | piece # pieces \<Rightarrow> (c # piece) # pieces))"

record PolicyRule =
  Verbs :: "string list"
  APIGroups :: "string list"
  Resources :: "string list"

record ClusterRole = ObjectMeta +
  Rules :: "PolicyRule list"

datatype ClusterRoleInterface = ClusterRoles

record EditClusterRoleOptions = Options +
  clusterRoleInterface :: "ClusterRoleInterface option"
  newVerbs :: string
  newApiGroups :: string
  newResources :: string
  clusterRoleName :: string

record ClusterRoleArguments =
  cr_positional :: "string list"
  verbs :: "string option"
  groups :: "string option"
  resources :: "string option"

definition NewEditClusterRoleOptions :: "ConfigFlags \<Rightarrow> EditClusterRoleOptions" where
  "NewEditClusterRoleOptions cf =
     \<lparr>configFlags = cf, args = [], clusterRoleInterface = None,
      newVerbs = [], newApiGroups = [], newResources = [], clusterRoleName = []\<rparr>"

definition Complete_cr ::
  "string list \<Rightarrow> EditClusterRoleOptions \<Rightarrow> error option \<times> EditClusterRoleOptions" where
  "Complete_cr args0 o0 =
     (let o1 = o0\<lparr>args := args0\<rparr>;
          o2 = (if length args0 > 0 then o1\<lparr>clusterRoleName := args0 ! 0\<rparr> else o1)
      in
      if length (clusterRoleName o2) = 0
      then (Some (ErrorString ''ClusterRole name not specified''), o2)
      else
       (case ToRESTConfig (configFlags o2) of
          Inl err \<Rightarrow> (Some err, o2)
        | Inr config \<Rightarrow>
        (case NewForConfig config of
          Some err \<Rightarrow> (Some err, o2)
        | None \<Rightarrow> (None, o2\<lparr>clusterRoleInterface := Some ClusterRoles\<rparr>))))"

definition Validate_cr :: "EditClusterRoleOptions \<Rightarrow> error option" where
  "Validate_cr opts =
     (if length (args opts) \<noteq> 1 then Some (ErrorString ''only one argument is allowed'')
      else if length (newVerbs opts) = 0 then Some (ErrorString ''verb feild is empty'')
      else if length (newResources opts) = 0 then Some (ErrorString ''resource feild is empty'')
      else None)"

definition Run_cr_func1 ::
  "ClusterRoleInterface \<Rightarrow> EditClusterRoleOptions \<Rightarrow> ClusterRole cluster
     \<Rightarrow> error option \<times> ClusterRole cluster" where
  "Run_cr_func1 client opts w =
     (case Get [] (clusterRoleName opts) w of
        (Inl getErr, w1) \<Rightarrow>
          (Some (Errorf_v ''failed to get latest version fo Deployment: '' getErr), w1)
      | (Inr result, w1) \<Rightarrow>
          (let listVerbs = Split (newVerbs opts) CHR '','';
               listResources = Split (newResources opts) CHR '','';
               listApiGroups = Split (newApiGroups opts) CHR '','';
               result' = result\<lparr>Rules := Rules result @
                  [\<lparr>Verbs = listVerbs, APIGroups = listApiGroups, Resources = listResources\<rparr>]\<rparr>
           in case Update [] result' w1 of
                (Inl updateErr, w2) \<Rightarrow> (Some updateErr, w2)
              | (Inr updated, w2) \<Rightarrow> (None, w2)))"

definition Run_cr ::
  "EditClusterRoleOptions \<Rightarrow> ClusterRole cluster \<Rightarrow> error option \<times> ClusterRole cluster" where
  "Run_cr opts w =
     (case clusterRoleInterface opts of
        None \<Rightarrow> (Some nil_dereference, w)
      | Some client \<Rightarrow>
         (case RetryOnConflict DefaultRetry (Run_cr_func1 client opts) w of
            (Some retryErr, w') \<Rightarrow> (Some (Errorf_v ''update failed: '' retryErr), w')
          | (None, w') \<Rightarrow> (None, w')))"

definition RunE_cr ::
  "EditClusterRoleOptions \<Rightarrow> string list \<Rightarrow> ClusterRole cluster
     \<Rightarrow> error option \<times> ClusterRole cluster" where
  "RunE_cr o0 args0 w =
     (case Complete_cr args0 o0 of
        (Some err, o1) \<Rightarrow> (Some err, w)
      | (None, o1) \<Rightarrow>
         (case Validate_cr o1 of
            Some err \<Rightarrow> (Some err, w)
          | None \<Rightarrow> Run_cr o1 w))"

definition NewCmdEdit_cr ::
  "ConfigFlags \<Rightarrow> ClusterRoleArguments \<Rightarrow> ClusterRole cluster
     \<Rightarrow> error option \<times> ClusterRole cluster" where
  "NewCmdEdit_cr cf line w =
     (let o0 = NewEditClusterRoleOptions cf;
          o1 = o0\<lparr>newVerbs := (case verbs line of None \<Rightarrow> newVerbs o0 | Some v \<Rightarrow> v),
                  newApiGroups := (case groups line of None \<Rightarrow> newApiGroups o0 | Some v \<Rightarrow> v),
                  newResources := (case resources line of None \<Rightarrow> newResources o0 | Some v \<Rightarrow> v)\<rparr>
      in RunE_cr o1 (cr_positional line) w)"

section \<open>Observing runs\<close>

text \<open>
  \<open>conflicted k fn lastErr w\<close> says that the first \<open>k\<close> attempts of \<open>fn\<close>, started in
  \<open>w\<close>, end in a version conflict each; it gives the last conflict and the state
  reached after them. It is used to state claims, not by the program.
\<close>

fun conflicted ::
  "nat \<Rightarrow> ('w \<Rightarrow> error option \<times> 'w) \<Rightarrow> error option \<Rightarrow> 'w \<Rightarrow> (error option \<times> 'w) option" where
  "conflicted 0 fn lastErr w = Some (lastErr, w)"
| "conflicted (Suc k) fn lastErr w =
     (case fn w of
        (None, w') \<Rightarrow> None
      | (Some err, w') \<Rightarrow> if IsConflict err then conflicted k fn (Some err) w' else None)"

section \<open>Example objects\<close>

text \<open>
  The objects of the scenarios of the specification: a kubeconfig whose current
  context \<open>dev\<close> names a namespace, the Deployment \<open>web\<close>, the ClusterRole \<open>viewer\<close>,
  and a cluster that holds one object and has a given script of events.
\<close>

definition kubeconfig :: "string \<Rightarrow> string \<Rightarrow> ConfigFlags" where
  "kubeconfig flag ctx =
     \<lparr>Namespace = flag, ToRESTConfig = Inr (RESTConfig None),
      RawConfig = Inr \<lparr>Contexts = [''dev'' \<mapsto> \<lparr>ctx_Namespace = ctx\<rparr>],
                      CurrentContext = ''dev''\<rparr>\<rparr>"

definition web :: "int32 \<Rightarrow> int32 \<Rightarrow> Deployment" where
  "web r h =
     \<lparr>Name = ''web'', ResourceVersion = 7,
      Spec = \<lparr>Replicas = Some r, RevisionHistoryLimit = Some h, Template = ''nginx''\<rparr>\<rparr>"

definition viewer :: ClusterRole where
  "viewer =
     \<lparr>Name = ''viewer'', ResourceVersion = 3,
      Rules = [\<lparr>Verbs = [''get''], APIGroups = [''''], Resources = [''pods'']\<rparr>]\<rparr>"

definition cluster_with ::
  "string \<Rightarrow> 'm ObjectMeta_scheme \<Rightarrow> ('m ObjectMeta_scheme) event list
     \<Rightarrow> ('m ObjectMeta_scheme) cluster" where
  "cluster_with ns obj script =
     \<lparr>objects = [(ns, Name obj) \<mapsto> obj], pending = script, requests = [], landed = 0\<rparr>"

text \<open>The options as \<open>Complete\<close> leaves them for \<open>edit-deploy web --replicas=5\<close> and
  for \<open>edit-cr viewer --verbs=list,watch --resources=configmaps --groups=\<close>.\<close>

definition web_options :: EditDeployOptions where
  "web_options =
     \<lparr>configFlags = kubeconfig '''' ''default'', args = [''web''],
      deploymentsClient = Some (Deployments ''default''),
      newReplicas = 5, newRhl = 10, deploymentName = ''web''\<rparr>"

definition viewer_options :: EditClusterRoleOptions where
  "viewer_options =
     \<lparr>configFlags = kubeconfig '''' ''default'', args = [''viewer''],
      clusterRoleInterface = Some ClusterRoles,
      newVerbs = ''list,watch'', newApiGroups = '''', newResources = ''configmaps'',
      clusterRoleName = ''viewer''\<rparr>"

section \<open>The store without pending events\<close>

lemma Get_quiet:
  "pending w = [] \<Longrightarrow>
   Get ns name w =
     (case objects w (ns, name) of
        None \<Rightarrow> (Inl (NewNotFound name), w\<lparr>requests := requests w @ [GET ns name]\<rparr>)
      | Some obj \<Rightarrow> (Inr obj, w\<lparr>requests := requests w @ [GET ns name]\<rparr>))"
  by (simp add: Get_def next_event_def rival_write_def Let_def)

lemma Update_quiet:
  "pending w = [] \<Longrightarrow> objects w (ns, Name obj) = Some cur \<Longrightarrow>
   ResourceVersion obj = ResourceVersion cur \<Longrightarrow>
   Update ns obj w =
     (Inr (obj\<lparr>ResourceVersion := Suc (ResourceVersion cur)\<rparr>),
      w\<lparr>requests := requests w @ [PUT ns (Name obj)],
        objects := (objects w)((ns, Name obj) \<mapsto> obj\<lparr>ResourceVersion := Suc (ResourceVersion cur)\<rparr>),
        landed := Suc (landed w)\<rparr>)"
  by (simp add: Update_def next_event_def rival_write_def Let_def)

section \<open>What every call leaves behind\<close>

lemma Get_observers:
  "Get ns name w = (res, w') \<Longrightarrow>
     requests w' = requests w @ [GET ns name] \<and> landed w' = landed w"
  by (auto simp: Get_def next_event_def rival_write_def Let_def
      split: list.splits event.splits option.splits)

lemma Update_requests:
  "Update ns obj w = (res, w') \<Longrightarrow> requests w' = requests w @ [PUT ns (Name obj)]"
  by (auto simp: Update_def next_event_def rival_write_def Let_def
      split: list.splits event.splits option.splits if_splits)

lemma Update_error_landed:
  "Update ns obj w = (Inl err, w') \<Longrightarrow> landed w' = landed w"
  by (auto simp: Update_def next_event_def rival_write_def Let_def
      split: list.splits event.splits option.splits if_splits)

lemma Update_success_stored:
  "Update ns obj w = (Inr stored, w') \<Longrightarrow>
     objects w' (ns, Name obj) = Some stored \<and> landed w' = Suc (landed w) \<and>
     (\<exists>v. stored = obj\<lparr>ResourceVersion := v\<rparr>)"
  by (auto simp: Update_def next_event_def rival_write_def Let_def
      split: list.splits event.splits option.splits if_splits)

section \<open>The retry loop\<close>

lemma RetryOnConflict_success:
  "fn w = (None, w') \<Longrightarrow> RetryOnConflict DefaultRetry fn w = (None, w')"
  by (simp add: RetryOnConflict_def DefaultRetry_def numeral_eq_Suc)

lemma OnError_loop_conflicted:
  "conflicted k fn lastErr w = Some (lastErr', w') \<Longrightarrow>
   OnError_loop (k + n) IsConflict fn lastErr w = OnError_loop n IsConflict fn lastErr' w'"
proof (induction k arbitrary: lastErr w)
  case 0
  then show ?case by simp
next
  case (Suc k)
  then show ?case
    by (auto split: prod.splits option.splits if_splits)
qed

lemma conflicted_last:
  "conflicted (Suc k) fn lastErr w = Some (lastErr', w') \<Longrightarrow>
   \<exists>e. lastErr' = Some e \<and> IsConflict e"
proof (induction k arbitrary: lastErr w)
  case 0
  then show ?case by (auto split: prod.splits option.splits if_splits)
next
  case (Suc k)
  from Suc.prems obtain e w1 where
    "fn w = (Some e, w1)" "IsConflict e" "conflicted (Suc k) fn (Some e) w1 = Some (lastErr', w')"
    by (auto split: prod.splits option.splits if_splits)
  then show ?case using Suc.IH by blast
qed

lemma conflicted_invariant:
  assumes step: "\<And>w e w'. fn w = (Some e, w') \<Longrightarrow> IsConflict e \<Longrightarrow> f w' = g (f w)"
  shows "conflicted k fn lastErr w = Some (lastErr', w') \<Longrightarrow> f w' = (g ^^ k) (f w)"
proof (induction k arbitrary: lastErr w)
  case 0
  then show ?case by simp
next
  case (Suc k)
  from Suc.prems obtain e w1 where
    a: "fn w = (Some e, w1)" "IsConflict e" "conflicted k fn (Some e) w1 = Some (lastErr', w')"
    by (auto split: prod.splits option.splits if_splits)
  have "f w' = (g ^^ k) (f w1)" using Suc.IH a(3) by blast
  also have "f w1 = g (f w)" using step a(1,2) by blast
  finally show ?case by (simp add: funpow_swap1)
qed

lemma Errorf_v_plain [simp]:
  "\<not> IsConflict (Errorf_v prefix err)" "\<not> IsNotFound (Errorf_v prefix err)"
  by (simp_all add: Errorf_v_def)

lemma conflicted_append:
  "conflicted k fn lastErr w = Some (lastErr', w') \<Longrightarrow>
   conflicted (k + n) fn lastErr w = conflicted n fn lastErr' w'"
proof (induction k arbitrary: lastErr w)
  case 0
  then show ?case by simp
next
  case (Suc k)
  then show ?case
    by (auto split: prod.splits option.splits if_splits)
qed

lemma RetryOnConflict_after_conflicts:
  assumes "k < Steps DefaultRetry" "conflicted k fn None w = Some (lastErr, wk)"
  shows "RetryOnConflict DefaultRetry fn w =
     (case fn wk of
        (None, w') \<Rightarrow> (None, w')
      | (Some err, w') \<Rightarrow>
          if IsConflict err
          then OnError_loop (Steps DefaultRetry - Suc k) IsConflict fn (Some err) w'
          else (Some err, w'))"
proof -
  define m where "m = Steps DefaultRetry - Suc k"
  have s: "Steps DefaultRetry = k + Suc m"
    using assms(1) by (simp add: m_def)
  have "RetryOnConflict DefaultRetry fn w = OnError_loop (k + Suc m) IsConflict fn None w"
    by (simp only: RetryOnConflict_def s)
  also have "\<dots> = OnError_loop (Suc m) IsConflict fn lastErr wk"
    by (rule OnError_loop_conflicted[OF assms(2)])
  also have "\<dots> = (case fn wk of
        (None, w') \<Rightarrow> (None, w')
      | (Some err, w') \<Rightarrow>
          if IsConflict err then OnError_loop m IsConflict fn (Some err) w'
          else (Some err, w'))"
    by simp
  finally show ?thesis by (simp only: m_def)
qed

lemma OnError_loop_success:
  "OnError_loop n retriable fn lastErr w = (None, w') \<Longrightarrow>
   (\<exists>w0. fn w0 = (None, w')) \<or> (n = 0 \<and> lastErr = None)"
proof (induction n arbitrary: lastErr w)
  case 0
  then show ?case by simp
next
  case (Suc n)
  show ?case
  proof (cases "fn w")
    case (Pair res w1)
    show ?thesis
    proof (cases res)
      case None
      with Pair Suc.prems show ?thesis by auto
    next
      case (Some err)
      with Pair Suc.prems have "OnError_loop n retriable fn (Some err) w1 = (None, w')"
        by (auto split: if_splits)
      from Suc.IH[OF this] show ?thesis by simp
    qed
  qed
qed

lemma RetryOnConflict_success_last:
  assumes "RetryOnConflict DefaultRetry fn w = (None, w')"
  shows "\<exists>w0. fn w0 = (None, w')"
  using OnError_loop_success[of "Steps DefaultRetry" IsConflict fn None w w'] assms
  by (simp add: RetryOnConflict_def DefaultRetry_def)

section \<open>The Deployment editor on a store without pending events\<close>

lemma Run_func1_quiet:
  assumes "pending w = []" "objects w (ns, name) = Some d" "Name d = name"
    "deploymentName opts = name"
  shows "Run_func1 (Deployments ns) opts w =
     (None, w\<lparr>requests := requests w @ [GET ns name, PUT ns name],
        objects := (objects w)((ns, name) \<mapsto>
           d\<lparr>Spec := (Spec d)\<lparr>Replicas := Some (newReplicas opts),
                   RevisionHistoryLimit := Some (newRhl opts)\<rparr>,
             ResourceVersion := Suc (ResourceVersion d)\<rparr>),
        landed := Suc (landed w)\<rparr>)"
  using assms by (simp add: Run_func1_def Get_quiet Update_quiet)

lemma Complete_quiet:
  assumes "pending w = []" "objects w (ns, name) = Some d" "name \<noteq> []"
    "ToRESTConfig (configFlags o0) = Inr config" "NewForConfig config = None"
    "RawConfig (configFlags o0) = Inr rawconfig"
    "userSpecifiedNamespace (configFlags o0) rawconfig = Inr ns"
    "Replicas (Spec d) = Some r" "RevisionHistoryLimit (Spec d) = Some h"
  shows "Complete (name # rest) o0 w =
    (None,
     o0\<lparr>args := name # rest, deploymentName := name,
        deploymentsClient := Some (Deployments ns),
        newReplicas := (if sint (newReplicas o0) \<le> 0 then r else newReplicas o0),
        newRhl := (if sint (newRhl o0) < 0 then h else newRhl o0)\<rparr>,
     w\<lparr>requests := requests w @ [GET ns name]\<rparr>)"
  using assms by (simp add: Complete_def Get_quiet Let_def)

lemma RunE_quiet:
  assumes "pending w = []" "objects w (ns, name) = Some d" "Name d = name" "name \<noteq> []"
    "ToRESTConfig (configFlags o0) = Inr config" "NewForConfig config = None"
    "RawConfig (configFlags o0) = Inr rawconfig"
    "userSpecifiedNamespace (configFlags o0) rawconfig = Inr ns"
    "Replicas (Spec d) = Some r" "RevisionHistoryLimit (Spec d) = Some h"
  shows "RunE o0 [name] w =
    (let n = (if sint (newReplicas o0) \<le> 0 then r else newReplicas o0);
         l = (if sint (newRhl o0) < 0 then h else newRhl o0)
     in
     if sint n \<le> 0
     then (Some (ErrorString ''invalid number of replicas''),
           w\<lparr>requests := requests w @ [GET ns name]\<rparr>)
     else if sint l < 0
     then (Some (ErrorString ''invalid value of RevisionHistoryLimit''),
           w\<lparr>requests := requests w @ [GET ns name]\<rparr>)
     else (None,
           w\<lparr>requests := requests w @ [GET ns name, GET ns name, PUT ns name],
             objects := (objects w)((ns, name) \<mapsto>
               d\<lparr>Spec := (Spec d)\<lparr>Replicas := Some n, RevisionHistoryLimit := Some l\<rparr>,
                 ResourceVersion := Suc (ResourceVersion d)\<rparr>),
             landed := Suc (landed w)\<rparr>))"
proof -
  let ?w1 = "w\<lparr>requests := requests w @ [GET ns name]\<rparr>"
  let ?n = "if sint (newReplicas o0) \<le> 0 then r else newReplicas o0"
  let ?l = "if sint (newRhl o0) < 0 then h else newRhl o0"
  let ?o2 = "o0\<lparr>args := [name], deploymentName := name,
        deploymentsClient := Some (Deployments ns),
        newReplicas := ?n, newRhl := ?l\<rparr>"
  have c: "Complete [name] o0 w = (None, ?o2, ?w1)"
    by (rule Complete_quiet[OF assms(1,2,4,5,6,7,8,9,10)])
  have w1: "pending ?w1 = []" "objects ?w1 (ns, name) = Some d" using assms by simp_all
  have r: "Run ?o2 ?w1 = (None,
           w\<lparr>requests := requests w @ [GET ns name, GET ns name, PUT ns name],
             objects := (objects w)((ns, name) \<mapsto>
               d\<lparr>Spec := (Spec d)\<lparr>Replicas := Some ?n, RevisionHistoryLimit := Some ?l\<rparr>,
                 ResourceVersion := Suc (ResourceVersion d)\<rparr>),
             landed := Suc (landed w)\<rparr>)"
    using Run_func1_quiet[OF w1 \<open>Name d = name\<close>, of ?o2]
    by (simp add: Run_def RetryOnConflict_success)
  have v: "Validate ?o2 =
     (if sint ?n \<le> 0 then Some (ErrorString ''invalid number of replicas'')
      else if sint ?l < 0 then Some (ErrorString ''invalid value of RevisionHistoryLimit'')
      else None)"
    by (simp add: Validate_def)
  show ?thesis
    unfolding RunE_def c Let_def using r v by simp
qed

lemma NewCmdEdit_quiet:
  assumes "pending w = []" "objects w (ns, name) = Some d" "Name d = name" "name \<noteq> []"
    "ToRESTConfig cf = Inr config" "NewForConfig config = None"
    "RawConfig cf = Inr rawconfig"
    "userSpecifiedNamespace cf rawconfig = Inr ns"
    "Replicas (Spec d) = Some r" "RevisionHistoryLimit (Spec d) = Some h"
    "positional line = [name]"
  shows "NewCmdEdit cf line w =
    (let n0 = (case replicas line of None \<Rightarrow> 0 | Some v \<Rightarrow> v);
         h0 = (case rhl line of None \<Rightarrow> - 1 | Some v \<Rightarrow> v);
         n = (if sint n0 \<le> 0 then r else n0);
         l = (if sint h0 < 0 then h else h0)
     in
     if sint n \<le> 0
     then (Some (ErrorString ''invalid number of replicas''),
           w\<lparr>requests := requests w @ [GET ns name]\<rparr>)
     else if sint l < 0
     then (Some (ErrorString ''invalid value of RevisionHistoryLimit''),
           w\<lparr>requests := requests w @ [GET ns name]\<rparr>)
     else (None,
           w\<lparr>requests := requests w @ [GET ns name, GET ns name, PUT ns name],
             objects := (objects w)((ns, name) \<mapsto>
               d\<lparr>Spec := (Spec d)\<lparr>Replicas := Some n, RevisionHistoryLimit := Some l\<rparr>,
                 ResourceVersion := Suc (ResourceVersion d)\<rparr>),
             landed := Suc (landed w)\<rparr>))"
proof -
  let ?o0 = "(NewEditDeploymentOptions cf)
     \<lparr>newReplicas := (case replicas line of None \<Rightarrow> newReplicas (NewEditDeploymentOptions cf) | Some v \<Rightarrow> v),
      newRhl := (case rhl line of None \<Rightarrow> - 1 | Some v \<Rightarrow> v)\<rparr>"
  have cf: "configFlags ?o0 = cf" by (simp add: NewEditDeploymentOptions_def)
  have sel: "newReplicas ?o0 = (case replicas line of None \<Rightarrow> 0 | Some v \<Rightarrow> v)"
    "newRhl ?o0 = (case rhl line of None \<Rightarrow> - 1 | Some v \<Rightarrow> v)"
    by (simp_all add: NewEditDeploymentOptions_def split: option.split)
  have "NewCmdEdit cf line w = RunE ?o0 [name] w"
    using assms(11) by (simp add: NewCmdEdit_def Let_def)
  also note RunE_quiet[of w ns name d ?o0 config rawconfig r h, unfolded cf sel, OF assms(1-10)]
  finally show ?thesis by (simp add: Let_def)
qed

lemmas example_defs = kubeconfig_def web_def viewer_def cluster_with_def

lemmas store_defs = Get_def Update_def next_event_def rival_write_def Let_def

lemmas editor_defs = NewCmdEdit_def NewEditDeploymentOptions_def RunE_def Complete_def
  Validate_def Run_def Run_func1_def RetryOnConflict_def DefaultRetry_def
  userSpecifiedNamespace_def numeral_eq_Suc


lemma Complete_keeps_quiet:
  assumes "pending w = []" "objects w (ns, name) = Some d"
    "ToRESTConfig (configFlags o0) = Inr config" "NewForConfig config = None"
    "RawConfig (configFlags o0) = Inr rawconfig"
    "userSpecifiedNamespace (configFlags o0) rawconfig = Inr ns"
    "Complete (name # rest) o0 w = (e, o1, w1)"
  shows "objects w1 = objects w \<and> pending w1 = [] \<and>
     (e = None \<longrightarrow>
        deploymentsClient o1 = Some (Deployments ns) \<and> deploymentName o1 = name \<and>
        (sint (newReplicas o0) \<le> 0 \<longrightarrow> Replicas (Spec d) = Some (newReplicas o1)) \<and>
        (sint (newRhl o0) < 0 \<longrightarrow> RevisionHistoryLimit (Spec d) = Some (newRhl o1)))"
  using assms
  by (auto simp: Complete_def Get_quiet Let_def split: if_splits option.splits)

lemma Run_quiet:
  assumes "pending w = []" "objects w (ns, name) = Some d" "Name d = name"
    "deploymentName opts = name" "deploymentsClient opts = Some (Deployments ns)"
  shows "Run opts w =
     (None, w\<lparr>requests := requests w @ [GET ns name, PUT ns name],
        objects := (objects w)((ns, name) \<mapsto>
           d\<lparr>Spec := (Spec d)\<lparr>Replicas := Some (newReplicas opts),
                   RevisionHistoryLimit := Some (newRhl opts)\<rparr>,
             ResourceVersion := Suc (ResourceVersion d)\<rparr>),
        landed := Suc (landed w)\<rparr>)"
  using Run_func1_quiet[OF assms(1-4)] assms(5)
  by (simp add: Run_def RetryOnConflict_success)

section \<open>Claims about the Deployment editor\<close>

text \<open>
  Claim C8. For every positive \<open>N\<close>, invoking the replica editor twice in succession
  with the same \<open>--replicas=N\<close> yields the same final stored replica count as invoking
  it once, and the second invocation does not error.

  The Deployment exists under its own name in the namespace the editor resolves, its
  two fields are set, its stored revision-history limit is not negative, and no other
  writer and no fault interferes (no event is pending). Then both invocations return no
  error, and the stored replica count is \<open>N\<close> after the first and after the second.
\<close>

theorem replicas_edit_twice:
  assumes "pending w = []" "objects w (ns, name) = Some d" "Name d = name" "name \<noteq> []"
    "ToRESTConfig cf = Inr config" "NewForConfig config = None"
    "RawConfig cf = Inr rawconfig"
    "userSpecifiedNamespace cf rawconfig = Inr ns"
    "Replicas (Spec d) = Some r" "RevisionHistoryLimit (Spec d) = Some h" "0 \<le> sint h"
    "positional line = [name]" "replicas line = Some N" "0 < sint N"
  shows "\<exists>w1 w2 d1 d2.
     NewCmdEdit cf line w = (None, w1) \<and> objects w1 (ns, name) = Some d1 \<and>
     Replicas (Spec d1) = Some N \<and>
     NewCmdEdit cf line w1 = (None, w2) \<and> objects w2 (ns, name) = Some d2 \<and>
     Replicas (Spec d2) = Some N"
proof -
  let ?h0 = "case rhl line of None \<Rightarrow> - 1 | Some v \<Rightarrow> v"
  let ?l = "if sint ?h0 < 0 then h else ?h0"
  let ?d1 = "d\<lparr>Spec := (Spec d)\<lparr>Replicas := Some N, RevisionHistoryLimit := Some ?l\<rparr>,
                 ResourceVersion := Suc (ResourceVersion d)\<rparr>"
  let ?w1 = "w\<lparr>requests := requests w @ [GET ns name, GET ns name, PUT ns name],
             objects := (objects w)((ns, name) \<mapsto> ?d1),
             landed := Suc (landed w)\<rparr>"
  have l: "\<not> sint ?l < 0" using assms(11) by simp
  have first: "NewCmdEdit cf line w = (None, ?w1)"
    using NewCmdEdit_quiet[OF assms(1-10) assms(12)] assms(13,14) l
    by (simp add: Let_def)
  have q1: "pending ?w1 = []" "objects ?w1 (ns, name) = Some ?d1" "Name ?d1 = name"
    "Replicas (Spec ?d1) = Some N" "RevisionHistoryLimit (Spec ?d1) = Some ?l"
    using assms(1,3) by simp_all
  let ?l2 = "if sint ?h0 < 0 then ?l else ?h0"
  have l2: "\<not> sint ?l2 < 0" using assms(11) by simp
  let ?d2 = "?d1\<lparr>Spec := (Spec ?d1)\<lparr>Replicas := Some N, RevisionHistoryLimit := Some ?l2\<rparr>,
                 ResourceVersion := Suc (ResourceVersion ?d1)\<rparr>"
  let ?w2 = "?w1\<lparr>requests := requests ?w1 @ [GET ns name, GET ns name, PUT ns name],
             objects := (objects ?w1)((ns, name) \<mapsto> ?d2),
             landed := Suc (landed ?w1)\<rparr>"
  have second: "NewCmdEdit cf line ?w1 = (None, ?w2)"
    using NewCmdEdit_quiet[OF q1(1,2,3) assms(4-8) q1(4,5) assms(12)] assms(13,14) l2
    by (simp add: Let_def)
  have "objects ?w1 (ns, name) = Some ?d1 \<and> Replicas (Spec ?d1) = Some N \<and>
        objects ?w2 (ns, name) = Some ?d2 \<and> Replicas (Spec ?d2) = Some N"
    by simp
  with first second show ?thesis by blast
qed

theorem replicas_edit_twice_witness:
  "\<exists>w1 w2 d1 d2.
     NewCmdEdit (kubeconfig '''' ''team-a'') \<lparr>positional = [''web''], replicas = Some 5, rhl = None\<rparr>
       (cluster_with ''team-a'' (web 3 10) []) = (None, w1) \<and>
     objects w1 (''team-a'', ''web'') = Some d1 \<and> Replicas (Spec d1) = Some 5 \<and>
     NewCmdEdit (kubeconfig '''' ''team-a'') \<lparr>positional = [''web''], replicas = Some 5, rhl = None\<rparr> w1
       = (None, w2) \<and>
     objects w2 (''team-a'', ''web'') = Some d2 \<and> Replicas (Spec d2) = Some 5"
  using replicas_edit_twice[of "cluster_with ''team-a'' (web 3 10) []" "''team-a''" "''web''"
      "web 3 10" "kubeconfig '''' ''team-a''" "RESTConfig None"
      "\<lparr>Contexts = [''dev'' \<mapsto> \<lparr>ctx_Namespace = ''team-a''\<rparr>], CurrentContext = ''dev''\<rparr>"
      3 10 "\<lparr>positional = [''web''], replicas = Some 5, rhl = None\<rparr>" 5]
  by (simp add: example_defs userSpecifiedNamespace_def)

text \<open>
  Fields without a flag, on a store where no other writer and no fault interferes (no
  event is pending): for every command line whose first argument names a Deployment
  that exists under its own name in the namespace the editor resolves, a field whose
  flag is absent has the same stored value after the command, whether the command
  succeeds or reports an error. The scenario \<open>edit-deploy web --replicas=5\<close> on
  replicas 3 and revisionHistoryLimit 10 follows it.
\<close>

lemma unspecified_fields_kept_undisturbed:
  assumes "pending w = []" "objects w (ns, name) = Some d" "Name d = name"
    "ToRESTConfig cf = Inr config" "NewForConfig config = None"
    "RawConfig cf = Inr rawconfig"
    "userSpecifiedNamespace cf rawconfig = Inr ns"
    "positional line = name # rest"
  shows "\<exists>d'. objects (snd (NewCmdEdit cf line w)) (ns, name) = Some d' \<and>
     (replicas line = None \<longrightarrow> Replicas (Spec d') = Replicas (Spec d)) \<and>
     (rhl line = None \<longrightarrow> RevisionHistoryLimit (Spec d') = RevisionHistoryLimit (Spec d))"
proof -
  let ?o0 = "(NewEditDeploymentOptions cf)
     \<lparr>newReplicas := (case replicas line of None \<Rightarrow> newReplicas (NewEditDeploymentOptions cf) | Some v \<Rightarrow> v),
      newRhl := (case rhl line of None \<Rightarrow> - 1 | Some v \<Rightarrow> v)\<rparr>"
  have cf: "configFlags ?o0 = cf" by (simp add: NewEditDeploymentOptions_def)
  have n0: "replicas line = None \<Longrightarrow> sint (newReplicas ?o0) \<le> 0"
    by (simp add: NewEditDeploymentOptions_def)
  have h0: "rhl line = None \<Longrightarrow> sint (newRhl ?o0) < 0"
    by simp
  have start: "NewCmdEdit cf line w = RunE ?o0 (name # rest) w"
    using assms(8) by (simp add: NewCmdEdit_def Let_def)
  obtain e o1 w1 where c: "Complete (name # rest) ?o0 w = (e, o1, w1)"
    using prod_cases3 by blast
  note k = Complete_keeps_quiet[of w ns name d ?o0 config rawconfig rest e o1 w1,
      unfolded cf, OF assms(1,2,4,5,6,7) c]
  show ?thesis
  proof (cases "e = None \<and> Validate o1 = None")
    case False
    then have "snd (RunE ?o0 (name # rest) w) = w1"
      using c by (auto simp: RunE_def split: option.splits)
    then show ?thesis using k assms(2) start by simp
  next
    case True
    then have run: "RunE ?o0 (name # rest) w = Run o1 w1"
      using c by (simp add: RunE_def)
    have q: "pending w1 = []" "objects w1 (ns, name) = Some d"
      "deploymentName o1 = name" "deploymentsClient o1 = Some (Deployments ns)"
      using k True assms(2) by simp_all
    show ?thesis
      unfolding start run Run_quiet[OF q(1,2) assms(3) q(3,4)]
      using k True n0 h0 by auto
  qed
qed

lemma unspecified_fields_kept_scenario:
  "\<exists>d'. objects (snd (NewCmdEdit (kubeconfig '''' ''default'')
                \<lparr>positional = [''web''], replicas = Some 5, rhl = None\<rparr>
                (cluster_with ''default'' (web 3 10) []))) (''default'', ''web'') = Some d' \<and>
        Replicas (Spec d') = Some 5 \<and> RevisionHistoryLimit (Spec d') = Some 10"
proof -
  let ?line = "\<lparr>positional = [''web''], replicas = Some 5, rhl = None\<rparr>"
  let ?w = "cluster_with ''default'' (web 3 10) []"
  have "\<exists>d'. objects (snd (NewCmdEdit (kubeconfig '''' ''default'') ?line ?w))
              (''default'', ''web'') = Some d' \<and>
          (replicas ?line = None \<longrightarrow> Replicas (Spec d') = Replicas (Spec (web 3 10))) \<and>
          (rhl ?line = None \<longrightarrow>
             RevisionHistoryLimit (Spec d') = RevisionHistoryLimit (Spec (web 3 10)))"
    by (rule unspecified_fields_kept_undisturbed[where config = "RESTConfig None" and rest = "[]"
          and rawconfig = "\<lparr>Contexts = [''dev'' \<mapsto> \<lparr>ctx_Namespace = ''default''\<rparr>],
                            CurrentContext = ''dev''\<rparr>"])
       (simp_all add: example_defs userSpecifiedNamespace_def)
  then obtain d' where d: "objects (snd (NewCmdEdit (kubeconfig '''' ''default'') ?line ?w))
              (''default'', ''web'') = Some d'"
     "RevisionHistoryLimit (Spec d') = Some 10"
    by (auto simp: web_def)
  have "map_option (Replicas \<circ> Spec) (objects (snd (NewCmdEdit (kubeconfig '''' ''default'') ?line ?w))
              (''default'', ''web'')) = Some (Some 5)"
    by (simp add: editor_defs store_defs example_defs)
  with d show ?thesis by auto
qed

text \<open>
  Claim C4. For every field the caller did not specify (replicas or
  revisionHistoryLimit), the replica editor leaves that field's stored value unchanged:
  after \<open>edit-deploy web --replicas=5\<close> on a Deployment with replicas 3 and
  revisionHistoryLimit 10, the store holds replicas 5 and revisionHistoryLimit 10.

  The editor does not do this when another writer changes the field between the fetch
  of \<open>Complete\<close> (line 133) and the fetch of the attempt (line 184). \<open>Complete\<close> keeps
  the value it read as \<open>newRhl\<close> or \<open>newReplicas\<close>, and the attempt writes that value
  over the object it has just fetched (lines 190 and 191). With \<open>--replicas=5\<close> alone,
  when another writer has set the limit to 20 in between, the attempt fetches the
  limit 20, the command returns no error, and the store holds the limit 10 again.
  With \<open>--rhl=5\<close> alone, when another writer has set the replicas to 7 in between, the
  store holds 3 replicas again.
\<close>

theorem stale_value_written_back:
  "NewCmdEdit (kubeconfig '''' ''default'')
       \<lparr>positional = [''web''], replicas = Some 5, rhl = None\<rparr>
       (cluster_with ''default'' (web 3 10)
          [Proceed, Rival (\<lambda>d. d\<lparr>Spec := (Spec d)\<lparr>RevisionHistoryLimit := Some 20\<rparr>\<rparr>)]) =
     (None,
      \<lparr>objects = [(''default'', ''web'') \<mapsto>
          \<lparr>Name = ''web'', ResourceVersion = 9,
           Spec = \<lparr>Replicas = Some 5, RevisionHistoryLimit = Some 10, Template = ''nginx''\<rparr>\<rparr>],
       pending = [],
       requests = [GET ''default'' ''web'', GET ''default'' ''web'', PUT ''default'' ''web''],
       landed = 1\<rparr>) \<and>
   fst (Get ''default'' ''web''
         (snd (snd (Complete [''web'']
            ((NewEditDeploymentOptions (kubeconfig '''' ''default''))\<lparr>newReplicas := 5, newRhl := - 1\<rparr>)
            (cluster_with ''default'' (web 3 10)
               [Proceed, Rival (\<lambda>d. d\<lparr>Spec := (Spec d)\<lparr>RevisionHistoryLimit := Some 20\<rparr>\<rparr>)]))))) =
     Inr \<lparr>Name = ''web'', ResourceVersion = 8,
          Spec = \<lparr>Replicas = Some 3, RevisionHistoryLimit = Some 20, Template = ''nginx''\<rparr>\<rparr> \<and>
   NewCmdEdit (kubeconfig '''' ''default'')
       \<lparr>positional = [''web''], replicas = None, rhl = Some 5\<rparr>
       (cluster_with ''default'' (web 3 10)
          [Proceed, Rival (\<lambda>d. d\<lparr>Spec := (Spec d)\<lparr>Replicas := Some 7\<rparr>\<rparr>)]) =
     (None,
      \<lparr>objects = [(''default'', ''web'') \<mapsto>
          \<lparr>Name = ''web'', ResourceVersion = 9,
           Spec = \<lparr>Replicas = Some 3, RevisionHistoryLimit = Some 5, Template = ''nginx''\<rparr>\<rparr>],
       pending = [],
       requests = [GET ''default'' ''web'', GET ''default'' ''web'', PUT ''default'' ''web''],
       landed = 1\<rparr>)"
  by (simp add: editor_defs store_defs example_defs)


text \<open>
  Claim C9. A \<open>--replicas\<close> value of zero or a negative value is never rejected as
  an invalid flag value: \<open>Complete\<close> replaces any non-positive value (the unset default
  0 included) with the current replica count of the Deployment, so the error
  "invalid number of replicas" fires exactly when that current count is itself
  non-positive; and, the claim goes on, a Deployment currently scaled to 0 replicas
  cannot be edited at all.

  The last part fails as stated. With a positive \<open>--replicas\<close> the current count is
  never consulted, and a Deployment with 0 replicas is edited: \<open>--replicas=2\<close> on
  \<open>web\<close> with 0 replicas returns no error and stores 2.
\<close>

theorem zero_replicas_edited_with_positive_flag:
  "NewCmdEdit (kubeconfig '''' ''default'')
       \<lparr>positional = [''web''], replicas = Some 2, rhl = None\<rparr>
       (cluster_with ''default'' (web 0 10) []) =
     (None,
      \<lparr>objects = [(''default'', ''web'') \<mapsto>
          \<lparr>Name = ''web'', ResourceVersion = 8,
           Spec = \<lparr>Replicas = Some 2, RevisionHistoryLimit = Some 10, Template = ''nginx''\<rparr>\<rparr>],
       pending = [],
       requests = [GET ''default'' ''web'', GET ''default'' ''web'', PUT ''default'' ''web''],
       landed = 1\<rparr>)"
  by (simp add: editor_defs store_defs example_defs)

text \<open>
  Claim C9 as amended: for an invocation whose \<open>--replicas\<close> is unset or not positive,
  \<open>Complete\<close> puts the current count in its place, the command reports
  "invalid number of replicas" exactly when the current count is not positive, and
  then nothing is stored, whatever \<open>--rhl\<close> says; when the current count is positive
  (and the stored limit is not negative) the command succeeds and the count stays.
  A Deployment with 0 replicas can be edited only by an invocation with a positive
  \<open>--replicas\<close>.
\<close>

theorem nonpositive_replicas_flag:
  assumes "pending w = []" "objects w (ns, name) = Some d" "Name d = name" "name \<noteq> []"
    "ToRESTConfig cf = Inr config" "NewForConfig config = None"
    "RawConfig cf = Inr rawconfig"
    "userSpecifiedNamespace cf rawconfig = Inr ns"
    "Replicas (Spec d) = Some r" "RevisionHistoryLimit (Spec d) = Some h"
    "positional line = [name]"
    "case replicas line of None \<Rightarrow> True | Some v \<Rightarrow> sint v \<le> 0"
  shows "(\<forall>o0. configFlags o0 = cf \<and> sint (newReplicas o0) \<le> 0 \<longrightarrow>
            (\<exists>o1 w1. Complete [name] o0 w = (None, o1, w1) \<and> newReplicas o1 = r)) \<and>
         (fst (NewCmdEdit cf line w) = Some (ErrorString ''invalid number of replicas'')
            \<longleftrightarrow> sint r \<le> 0) \<and>
         (sint r \<le> 0 \<longrightarrow>
            objects (snd (NewCmdEdit cf line w)) = objects w \<and>
            landed (snd (NewCmdEdit cf line w)) = landed w) \<and>
         (0 < sint r \<and> 0 \<le> sint h \<longrightarrow>
            fst (NewCmdEdit cf line w) = None \<and>
            (\<exists>d'. objects (snd (NewCmdEdit cf line w)) (ns, name) = Some d' \<and>
                  Replicas (Spec d') = Some r))"
proof -
  have n0: "sint (case replicas line of None \<Rightarrow> 0 | Some v \<Rightarrow> v) \<le> 0"
    using assms(12) by (simp split: option.splits)
  have a: "\<forall>o0. configFlags o0 = cf \<and> sint (newReplicas o0) \<le> 0 \<longrightarrow>
            (\<exists>o1 w1. Complete [name] o0 w = (None, o1, w1) \<and> newReplicas o1 = r)"
  proof (intro allI impI)
    fix o0 :: EditDeployOptions
    assume o0: "configFlags o0 = cf \<and> sint (newReplicas o0) \<le> 0"
    show "\<exists>o1 w1. Complete [name] o0 w = (None, o1, w1) \<and> newReplicas o1 = r"
      using Complete_quiet[of w ns name d o0 config rawconfig r h "[]"] assms o0 by simp
  qed
  note q = NewCmdEdit_quiet[OF assms(1-11)]
  have b: "fst (NewCmdEdit cf line w) = Some (ErrorString ''invalid number of replicas'')
            \<longleftrightarrow> sint r \<le> 0"
    unfolding q using n0 by (simp add: Let_def)
  have c: "sint r \<le> 0 \<longrightarrow>
            objects (snd (NewCmdEdit cf line w)) = objects w \<and>
            landed (snd (NewCmdEdit cf line w)) = landed w"
    unfolding q using n0 by (simp add: Let_def)
  have h0: "0 \<le> sint h \<Longrightarrow>
      \<not> sint (if sint (case rhl line of None \<Rightarrow> - 1 | Some v \<Rightarrow> v) < 0 then h
               else (case rhl line of None \<Rightarrow> - 1 | Some v \<Rightarrow> v)) < 0"
    by simp
  have d: "0 < sint r \<and> 0 \<le> sint h \<longrightarrow>
            fst (NewCmdEdit cf line w) = None \<and>
            (\<exists>d'. objects (snd (NewCmdEdit cf line w)) (ns, name) = Some d' \<and>
                  Replicas (Spec d') = Some r)"
    unfolding q using n0 h0 by (simp add: Let_def)
  from a b c d show ?thesis by blast
qed

theorem nonpositive_replicas_flag_witness:
  "fst (NewCmdEdit (kubeconfig '''' ''default'')
          \<lparr>positional = [''web''], replicas = None, rhl = Some 5\<rparr>
          (cluster_with ''default'' (web 0 10) [])) =
     Some (ErrorString ''invalid number of replicas'') \<and>
   objects (snd (NewCmdEdit (kubeconfig '''' ''default'')
          \<lparr>positional = [''web''], replicas = None, rhl = Some 5\<rparr>
          (cluster_with ''default'' (web 0 10) []))) =
     objects (cluster_with ''default'' (web 0 10) []) \<and>
   fst (NewCmdEdit (kubeconfig '''' ''default'')
          \<lparr>positional = [''web''], replicas = Some (- 4), rhl = None\<rparr>
          (cluster_with ''default'' (web 3 10) [])) = None \<and>
   (\<exists>d'. objects (snd (NewCmdEdit (kubeconfig '''' ''default'')
          \<lparr>positional = [''web''], replicas = Some (- 4), rhl = None\<rparr>
          (cluster_with ''default'' (web 3 10) []))) (''default'', ''web'') = Some d' \<and>
        Replicas (Spec d') = Some 3)"
proof -
  let ?raw = "\<lparr>Contexts = [''dev'' \<mapsto> \<lparr>ctx_Namespace = ''default''\<rparr>], CurrentContext = ''dev''\<rparr>"
  have z: "sint (0 :: int32) \<le> 0" by simp
  note t0 = nonpositive_replicas_flag[of "cluster_with ''default'' (web 0 10) []" "''default''"
      "''web''" "web 0 10" "kubeconfig '''' ''default''" "RESTConfig None" ?raw 0 10
      "\<lparr>positional = [''web''], replicas = None, rhl = Some 5\<rparr>"]
  note t3 = nonpositive_replicas_flag[of "cluster_with ''default'' (web 3 10) []" "''default''"
      "''web''" "web 3 10" "kubeconfig '''' ''default''" "RESTConfig None" ?raw 3 10
      "\<lparr>positional = [''web''], replicas = Some (- 4), rhl = None\<rparr>"]
  have a: "fst (NewCmdEdit (kubeconfig '''' ''default'')
          \<lparr>positional = [''web''], replicas = None, rhl = Some 5\<rparr>
          (cluster_with ''default'' (web 0 10) [])) =
     Some (ErrorString ''invalid number of replicas'') \<and>
   objects (snd (NewCmdEdit (kubeconfig '''' ''default'')
          \<lparr>positional = [''web''], replicas = None, rhl = Some 5\<rparr>
          (cluster_with ''default'' (web 0 10) []))) =
     objects (cluster_with ''default'' (web 0 10) [])"
    using t0 by (simp add: example_defs userSpecifiedNamespace_def)
  have b: "fst (NewCmdEdit (kubeconfig '''' ''default'')
          \<lparr>positional = [''web''], replicas = Some (- 4), rhl = None\<rparr>
          (cluster_with ''default'' (web 3 10) [])) = None \<and>
   (\<exists>d'. objects (snd (NewCmdEdit (kubeconfig '''' ''default'')
          \<lparr>positional = [''web''], replicas = Some (- 4), rhl = None\<rparr>
          (cluster_with ''default'' (web 3 10) []))) (''default'', ''web'') = Some d' \<and>
        Replicas (Spec d') = Some 3)"
    using t3 by (simp add: example_defs userSpecifiedNamespace_def)
  from a b show ?thesis by blast
qed

text \<open>
  Claim C5. All argument validation of the replica editor (a deployment name present
  and exactly one positional argument; \<open>--replicas\<close>, if given, positive; \<open>--rhl\<close>,
  if given, not negative) is performed and its failure reported before any network
  call is made.

  This fails as stated: \<open>Complete\<close> fetches the Deployment before \<open>Validate\<close> runs.
  With two positional arguments the error "only one argument is allowed" is reported
  after the request \<open>GET default web\<close> has been sent.
\<close>

theorem validation_after_fetch:
  "NewCmdEdit (kubeconfig '''' ''default'')
       \<lparr>positional = [''web'', ''extra''], replicas = Some 5, rhl = None\<rparr>
       (cluster_with ''default'' (web 3 10) []) =
     (Some (ErrorString ''only one argument is allowed''),
      (cluster_with ''default'' (web 3 10) [])\<lparr>requests := [GET ''default'' ''web'']\<rparr>)"
  by (simp add: editor_defs store_defs example_defs)

lemma Complete_requests:
  assumes "Complete args0 o0 w = (None, o1, w1)"
  shows "(\<exists>ns. requests w1 = requests w @ [GET ns (deploymentName o1)]) \<and> landed w1 = landed w"
proof -
  let ?o2 = "if length args0 > 0 then o0\<lparr>args := args0, deploymentName := args0 ! 0\<rparr>
             else o0\<lparr>args := args0\<rparr>"
  from assms obtain ns res where
    g: "Get ns (deploymentName ?o2) w = (res, w1)" and n: "deploymentName o1 = deploymentName ?o2"
    by (auto simp: Complete_def Let_def split: if_splits sum.splits option.splits prod.splits)
  from Get_observers[OF g] n show ?thesis by auto
qed

text \<open>
  Claim C5 as amended: a missing deployment name is reported before any network call
  (the cluster is left as it was). The other checks are made by \<open>Validate\<close> on the
  options \<open>Complete\<close> returns: when \<open>Validate\<close> rejects them the command returns that
  error, the only request sent so far is the one \<open>Get\<close> of \<open>Complete\<close>, and no update
  of the tool has been stored. This holds for every script of events.
\<close>

theorem validation_order:
  "((case positional line of [] \<Rightarrow> True | a # rest \<Rightarrow> a = []) \<longrightarrow>
      NewCmdEdit cf line w = (Some (ErrorString ''deployment name not specified''), w)) \<and>
   (Complete args0 o0 w = (None, o1, w1) \<and> Validate o1 = Some err \<longrightarrow>
      RunE o0 args0 w = (Some err, w1) \<and>
      (\<exists>ns. requests w1 = requests w @ [GET ns (deploymentName o1)]) \<and>
      landed w1 = landed w)"
proof -
  have a: "(case positional line of [] \<Rightarrow> True | a # rest \<Rightarrow> a = []) \<longrightarrow>
      NewCmdEdit cf line w = (Some (ErrorString ''deployment name not specified''), w)"
    by (auto simp: NewCmdEdit_def NewEditDeploymentOptions_def RunE_def Complete_def Let_def
        split: list.splits)
  have b: "Complete args0 o0 w = (None, o1, w1) \<and> Validate o1 = Some err \<longrightarrow>
      RunE o0 args0 w = (Some err, w1) \<and>
      (\<exists>ns. requests w1 = requests w @ [GET ns (deploymentName o1)]) \<and>
      landed w1 = landed w"
    using Complete_requests[of args0 o0 w o1 w1] by (auto simp: RunE_def)
  from a b show ?thesis by blast
qed

theorem validation_order_witness:
  "NewCmdEdit (kubeconfig '''' ''default'') \<lparr>positional = [], replicas = Some 5, rhl = None\<rparr>
       (cluster_with ''default'' (web 3 10) []) =
     (Some (ErrorString ''deployment name not specified''),
      cluster_with ''default'' (web 3 10) []) \<and>
   RunE ((NewEditDeploymentOptions (kubeconfig '''' ''default''))\<lparr>newReplicas := 5, newRhl := - 1\<rparr>)
       [''web'', ''extra''] (cluster_with ''default'' (web 3 10) []) =
     (Some (ErrorString ''only one argument is allowed''),
      (cluster_with ''default'' (web 3 10) [])\<lparr>requests := [GET ''default'' ''web'']\<rparr>) \<and>
   landed ((cluster_with ''default'' (web 3 10) [])\<lparr>requests := [GET ''default'' ''web'']\<rparr>) =
     landed (cluster_with ''default'' (web 3 10) [])"
proof -
  let ?w = "cluster_with ''default'' (web 3 10) []"
  let ?o0 = "(NewEditDeploymentOptions (kubeconfig '''' ''default''))\<lparr>newReplicas := 5, newRhl := - 1\<rparr>"
  let ?o1 = "?o0\<lparr>args := [''web'', ''extra''], deploymentName := ''web'',
                deploymentsClient := Some (Deployments ''default''), newRhl := 10\<rparr>"
  let ?w1 = "?w\<lparr>requests := [GET ''default'' ''web'']\<rparr>"
  have c: "Complete [''web'', ''extra''] ?o0 ?w = (None, ?o1, ?w1)"
    by (simp add: editor_defs store_defs example_defs)
  have v: "Validate ?o1 = Some (ErrorString ''only one argument is allowed'')"
    by (simp add: Validate_def)
  from validation_order[of "\<lparr>positional = [], replicas = Some 5, rhl = None\<rparr>"
      "kubeconfig '''' ''default''" ?w "[''web'', ''extra'']" ?o0 ?o1 ?w1
      "ErrorString ''only one argument is allowed''"] c v
  show ?thesis by simp
qed

text \<open>The first two steps of the namespace resolution: the flag wins, then the
  namespace of the current context.\<close>

lemma namespace_flag_wins:
  "Namespace cf \<noteq> [] \<Longrightarrow> userSpecifiedNamespace cf rawconfig = Inr (Namespace cf)"
  by (simp add: userSpecifiedNamespace_def)

lemma namespace_of_context:
  "Namespace cf = [] \<Longrightarrow> Contexts rawconfig (CurrentContext rawconfig) = Some c \<Longrightarrow>
   ctx_Namespace c \<noteq> [] \<Longrightarrow> userSpecifiedNamespace cf rawconfig = Inr (ctx_Namespace c)"
  by (simp add: userSpecifiedNamespace_def)

text \<open>
  Claim C6. The replica editor resolves the namespace by this precedence: an explicit
  \<open>--namespace\<close> flag wins; otherwise the namespace of the active context is used;
  otherwise it falls back to the default namespace.

  The first two steps hold in the code (the two lemmas above). The third does not.
  With no flag and no namespace in the current context the editor of
  edit\_deploy/kubectl-edit\_deploy.go addresses the namespace \<open>Default\<close>, which is
  not the namespace \<open>default\<close>: a Deployment \<open>web\<close> that lives in \<open>default\<close> is
  not found. The editor of unnamed/part\_000 has no third step and addresses the empty
  namespace.
\<close>

theorem namespace_fallback_is_not_default:
  "userSpecifiedNamespace (kubeconfig '''' '''')
      \<lparr>Contexts = [''dev'' \<mapsto> \<lparr>ctx_Namespace = ''''\<rparr>], CurrentContext = ''dev''\<rparr> = Inr ''Default'' \<and>
   ''Default'' \<noteq> ''default'' \<and>
   NewCmdEdit (kubeconfig '''' '''')
       \<lparr>positional = [''web''], replicas = Some 5, rhl = None\<rparr>
       (cluster_with ''default'' (web 3 10) []) =
     (Some (NewNotFound ''web''),
      (cluster_with ''default'' (web 3 10) [])\<lparr>requests := [GET ''Default'' ''web'']\<rparr>) \<and>
   userSpecifiedNamespace_000 (kubeconfig '''' '''')
      \<lparr>Contexts = [''dev'' \<mapsto> \<lparr>ctx_Namespace = ''''\<rparr>], CurrentContext = ''dev''\<rparr> = Inr ''''"
  by (simp add: editor_defs userSpecifiedNamespace_000_def store_defs example_defs)

text \<open>The editor of edit\_deploy/kubectl-edit\_deploy.go does what the claim says.\<close>

lemma replicas_edit_sets_count:
  assumes "pending w = []" "objects w (ns, name) = Some d" "Name d = name" "name \<noteq> []"
    "ToRESTConfig cf = Inr config" "NewForConfig config = None"
    "RawConfig cf = Inr rawconfig"
    "userSpecifiedNamespace cf rawconfig = Inr ns"
    "Replicas (Spec d) = Some r" "RevisionHistoryLimit (Spec d) = Some h" "0 \<le> sint h"
    "positional line = [name]" "replicas line = Some N" "0 < sint N"
  shows "\<exists>w1 d1. NewCmdEdit cf line w = (None, w1) \<and> objects w1 (ns, name) = Some d1 \<and>
     Replicas (Spec d1) = Some N"
proof -
  have "\<not> sint (if sint (case rhl line of None \<Rightarrow> - 1 | Some v \<Rightarrow> v) < 0 then h
               else (case rhl line of None \<Rightarrow> - 1 | Some v \<Rightarrow> v)) < 0"
    using assms(11) by simp
  then show ?thesis
    using NewCmdEdit_quiet[OF assms(1-10) assms(12)] assms(13,14)
    by (simp add: Let_def)
qed

section \<open>Claims about the earlier Deployment editor\<close>

text \<open>\<open>flag.CommandLine\<close> is the new, empty flag set in every run of the program.\<close>

lemma isFlagPassed_NewFlagSet: "isFlagPassed NewFlagSet name = False"
  by (simp add: isFlagPassed_def NewFlagSet_def)

lemmas editor_000_defs = main_000_def NewCmdEdit_000_def NewEditDeploymentOptions_def
  RunE_000_def Complete_000_def Validate_def Run_000_def Run_000_func1_def
  RetryOnConflict_def DefaultRetry_def userSpecifiedNamespace_000_def
  isFlagPassed_NewFlagSet numeral_eq_Suc

text \<open>
  Claim C1. For every positive \<open>N\<close>, running the replica editor with \<open>--replicas=N\<close>
  on an existing Deployment results in a stored Deployment whose replica count is \<open>N\<close>.

  The editor of unnamed/part\_000 does not do this: \<open>isFlagPassed\<close> answers no for
  every flag, so \<open>Complete\<close> overwrites the parsed \<open>--replicas\<close> with the current
  count. \<open>edit-deploy web --replicas=5\<close> on \<open>web\<close> with 3 replicas exits with
  status 0 after one accepted update, and the store still holds 3 replicas.
\<close>

theorem part_000_keeps_current_replicas:
  "main_000 (kubeconfig '''' ''default'')
       \<lparr>positional = [''web''], replicas = Some 5, rhl = None\<rparr>
       (cluster_with ''default'' (web 3 10) []) =
     (0,
      \<lparr>objects = [(''default'', ''web'') \<mapsto>
          \<lparr>Name = ''web'', ResourceVersion = 8,
           Spec = \<lparr>Replicas = Some 3, RevisionHistoryLimit = Some 10, Template = ''nginx''\<rparr>\<rparr>],
       pending = [],
       requests = [GET ''default'' ''web'', GET ''default'' ''web'', PUT ''default'' ''web''],
       landed = 1\<rparr>)"
  by (simp add: editor_000_defs store_defs example_defs)

section \<open>Claims about the update loop\<close>

lemma Run_func1_conflict:
  assumes "Run_func1 client opts w = (Some e, w')" "IsConflict e"
  shows "landed w' = landed w \<and> length (requests w') = length (requests w) + 2"
proof -
  obtain ns where c: "client = Deployments ns" by (cases client)
  obtain r1 w1 where g: "Get ns (deploymentName opts) w = (r1, w1)" by fastforce
  show ?thesis
  proof (cases r1)
    case (Inl ge)
    with assms c g show ?thesis by (auto simp: Run_func1_def)
  next
    case (Inr result)
    let ?r = "result\<lparr>Spec := (Spec result)\<lparr>Replicas := Some (newReplicas opts),
                                     RevisionHistoryLimit := Some (newRhl opts)\<rparr>\<rparr>"
    obtain r2 w2 where u: "Update ns ?r w1 = (r2, w2)" by fastforce
    with assms c g Inr have r2: "r2 = Inl e" "w2 = w'"
      by (auto simp: Run_func1_def Let_def split: sum.splits)
    from Get_observers[OF g] Update_requests[OF u] Update_error_landed[of ns ?r w1 e w2] u r2
    show ?thesis by simp
  qed
qed

text \<open>
  Claim C3. If every one of the bounded number of attempts (5 under the default retry
  policy) ends in a version conflict, the command fails with an error reported as
  "update failed", distinct from not-found and validation failures, and no write by
  this tool has landed on the remote object.

  \<open>Run\<close> then returns the plain error "update failed: " followed by the text of the
  last conflict; the state is the one the fifth attempt left; the count of accepted
  updates of the tool is what it was; ten requests were sent (a \<open>Get\<close> and an \<open>Update\<close>
  per attempt). When \<open>Complete\<close> and \<open>Validate\<close> have led to that run, the command
  (\<open>RunE\<close>) returns the same error and nothing of the tool has been stored since the
  command began. The error is no not-found status and none of the errors of
  \<open>Complete\<close> and \<open>Validate\<close> about the arguments.
\<close>

theorem conflict_exhaustion:
  assumes "deploymentsClient opts = Some client"
    "conflicted (Steps DefaultRetry) (Run_func1 client opts) None w = Some (lastErr, w')"
  shows "Steps DefaultRetry = 5 \<and>
     (\<exists>e. lastErr = Some e \<and> IsConflict e \<and>
        Run opts w = (Some (ErrorString (''update failed: '' @ Error e)), w') \<and>
        landed w' = landed w \<and>
        length (requests w') = length (requests w) + 10 \<and>
        (\<forall>args0 o0 w0. Complete args0 o0 w0 = (None, opts, w) \<and> Validate opts = None \<longrightarrow>
           RunE o0 args0 w0 = (Some (ErrorString (''update failed: '' @ Error e)), w') \<and>
           landed w' = landed w0) \<and>
        \<not> IsNotFound (ErrorString (''update failed: '' @ Error e)) \<and>
        ErrorString (''update failed: '' @ Error e) \<noteq> ErrorString ''deployment name not specified'' \<and>
        (\<forall>opts'. Validate opts' \<noteq> Some (ErrorString (''update failed: '' @ Error e))))"
proof -
  have s: "Steps DefaultRetry = 5" by (simp add: DefaultRetry_def)
  from assms(2) obtain e where e: "lastErr = Some e" "IsConflict e"
    using conflicted_last[of 4 "Run_func1 client opts" None w lastErr w'] by (auto simp: s)
  have "RetryOnConflict DefaultRetry (Run_func1 client opts) w = (Some e, w')"
    using OnError_loop_conflicted[OF assms(2), of 0] e by (simp add: RetryOnConflict_def)
  then have r: "Run opts w = (Some (ErrorString (''update failed: '' @ Error e)), w')"
    using assms(1) by (simp add: Run_def Errorf_v_def)
  have l: "landed w' = (id ^^ Steps DefaultRetry) (landed w)"
    by (rule conflicted_invariant[where f = landed and g = id and fn = "Run_func1 client opts",
          OF _ assms(2)]) (simp add: Run_func1_conflict)
  have q: "length (requests w') = ((\<lambda>n. n + 2) ^^ Steps DefaultRetry) (length (requests w))"
    by (rule conflicted_invariant[where f = "\<lambda>w. length (requests w)" and g = "\<lambda>n. n + 2"
          and fn = "Run_func1 client opts", OF _ assms(2)])
       (simp add: Run_func1_conflict)
  have v: "\<forall>opts'. Validate opts' \<noteq> Some (ErrorString (''update failed: '' @ Error e))"
    by (simp add: Validate_def)
  have l': "landed w' = landed w" using l by (simp add: s)
  have q': "length (requests w') = length (requests w) + 10"
    using q by (simp add: s eval_nat_numeral)
  have d: "\<not> IsNotFound (ErrorString (''update failed: '' @ Error e))"
    "ErrorString (''update failed: '' @ Error e) \<noteq> ErrorString ''deployment name not specified''"
    by simp_all
  have cmd: "\<forall>args0 o0 w0. Complete args0 o0 w0 = (None, opts, w) \<and> Validate opts = None \<longrightarrow>
           RunE o0 args0 w0 = (Some (ErrorString (''update failed: '' @ Error e)), w') \<and>
           landed w' = landed w0"
  proof (intro allI impI)
    fix args0 o0 w0
    assume c: "Complete args0 o0 w0 = (None, opts, w) \<and> Validate opts = None"
    then have "RunE o0 args0 w0 = Run opts w" by (simp add: RunE_def)
    moreover have "landed w = landed w0" using Complete_requests[of args0 o0 w0 opts w] c by simp
    ultimately show "RunE o0 args0 w0 = (Some (ErrorString (''update failed: '' @ Error e)), w') \<and>
           landed w' = landed w0"
      using r l' by simp
  qed
  from s e r l' q' v d cmd show ?thesis by blast
qed

theorem conflict_exhaustion_witness:
  "fst (Run web_options (cluster_with ''default'' (web 3 10)
          [Proceed, Rival id, Proceed, Rival id, Proceed, Rival id, Proceed, Rival id,
           Proceed, Rival id])) =
     Some (ErrorString
       ''update failed: Operation cannot be fulfilled on web: the object has been modified'') \<and>
   landed (snd (Run web_options (cluster_with ''default'' (web 3 10)
          [Proceed, Rival id, Proceed, Rival id, Proceed, Rival id, Proceed, Rival id,
           Proceed, Rival id]))) = 0 \<and>
   length (requests (snd (Run web_options (cluster_with ''default'' (web 3 10)
          [Proceed, Rival id, Proceed, Rival id, Proceed, Rival id, Proceed, Rival id,
           Proceed, Rival id])))) = 10 \<and>
   fst (NewCmdEdit (kubeconfig '''' ''default'')
          \<lparr>positional = [''web''], replicas = Some 5, rhl = None\<rparr>
          (cluster_with ''default'' (web 3 10)
            [Proceed, Proceed, Rival id, Proceed, Rival id, Proceed, Rival id, Proceed, Rival id,
             Proceed, Rival id])) =
     Some (ErrorString
       ''update failed: Operation cannot be fulfilled on web: the object has been modified'')"
proof -
  let ?w = "cluster_with ''default'' (web 3 10)
            [Proceed, Rival id, Proceed, Rival id, Proceed, Rival id, Proceed, Rival id,
             Proceed, Rival id]"
  have "\<exists>w'. conflicted (Steps DefaultRetry) (Run_func1 (Deployments ''default'') web_options)
          None ?w = Some (Some (NewConflict ''web''), w')"
    by (simp add: DefaultRetry_def numeral_eq_Suc Run_func1_def store_defs example_defs
        web_options_def NewConflict_def)
  then obtain w' where
    c: "conflicted (Steps DefaultRetry) (Run_func1 (Deployments ''default'') web_options)
          None ?w = Some (Some (NewConflict ''web''), w')"
    by blast
  have "deploymentsClient web_options = Some (Deployments ''default'')"
    by (simp add: web_options_def)
  from conflict_exhaustion[OF this c]
  have "Run web_options ?w =
      (Some (ErrorString (''update failed: '' @ Error (NewConflict ''web''))), w')"
    "landed w' = landed ?w" "length (requests w') = length (requests ?w) + 10"
    by simp_all
  then have a: "fst (Run web_options ?w) =
     Some (ErrorString
       ''update failed: Operation cannot be fulfilled on web: the object has been modified'') \<and>
     landed (snd (Run web_options ?w)) = 0 \<and> length (requests (snd (Run web_options ?w))) = 10"
    by (simp add: NewConflict_def cluster_with_def)
  have b: "fst (NewCmdEdit (kubeconfig '''' ''default'')
          \<lparr>positional = [''web''], replicas = Some 5, rhl = None\<rparr>
          (cluster_with ''default'' (web 3 10)
            [Proceed, Proceed, Rival id, Proceed, Rival id, Proceed, Rival id, Proceed, Rival id,
             Proceed, Rival id])) =
     Some (ErrorString
       ''update failed: Operation cannot be fulfilled on web: the object has been modified'')"
    by (simp add: editor_defs store_defs example_defs NewConflict_def Errorf_v_def)
  from a b show ?thesis by blast
qed

lemma Run_func1_get_failed:
  "Get ns (deploymentName opts) w = (Inl e, w1) \<Longrightarrow>
   Run_func1 (Deployments ns) opts w =
     (Some (Errorf_v ''failed to get latest version fo Deployment: '' e), w1)"
  by (simp add: Run_func1_def)

lemma Run_func1_update_failed:
  "Get ns (deploymentName opts) w = (Inr result, w1) \<Longrightarrow>
   Update ns (result\<lparr>Spec := (Spec result)\<lparr>Replicas := Some (newReplicas opts),
        RevisionHistoryLimit := Some (newRhl opts)\<rparr>\<rparr>) w1 = (Inl e, w2) \<Longrightarrow>
   Run_func1 (Deployments ns) opts w = (Some e, w2)"
  by (simp add: Run_func1_def)

lemma Run_cr_func1_get_failed:
  "Get [] (clusterRoleName opts) w = (Inl e, w1) \<Longrightarrow>
   Run_cr_func1 client opts w =
     (Some (Errorf_v ''failed to get latest version fo Deployment: '' e), w1)"
  by (simp add: Run_cr_func1_def)

lemma Run_cr_func1_update_failed:
  "Get [] (clusterRoleName opts) w = (Inr result, w1) \<Longrightarrow>
   Update [] (result\<lparr>Rules := Rules result @
        [\<lparr>Verbs = Split (newVerbs opts) CHR '','',
          APIGroups = Split (newApiGroups opts) CHR '','',
          Resources = Split (newResources opts) CHR '',''\<rparr>]\<rparr>) w1 = (Inl e, w2) \<Longrightarrow>
   Run_cr_func1 client opts w = (Some e, w2)"
  by (simp add: Run_cr_func1_def)

text \<open>
  Claim C2. Inside the update loop, only a version-conflict error from the persist
  step is retried; a fetch failure or any non-conflict persist error aborts the loop
  immediately on first occurrence and is surfaced to the caller.

  Stated for the attempt that follows \<open>k\<close> conflicts (\<open>k\<close> below the number of steps),
  for the loop of the Deployment editor and for the loop of the ClusterRole editor.
  When the fetch of that attempt fails, with whatever error, \<open>Run\<close> returns at once:
  its result names that error and its state is the one the fetch left. When the
  update of that attempt fails with an error that is no conflict, \<open>Run\<close> returns at
  once with that error. When it fails with a conflict, the loop goes on with the
  steps that remain, from the state the update left.
\<close>

theorem only_conflicts_are_retried:
  "(k < Steps DefaultRetry \<and> deploymentsClient opts = Some (Deployments ns) \<and>
    conflicted k (Run_func1 (Deployments ns) opts) None w = Some (lastErr, wk) \<longrightarrow>
      (\<forall>e w1. Get ns (deploymentName opts) wk = (Inl e, w1) \<longrightarrow>
         Run opts w =
           (Some (ErrorString (''update failed: failed to get latest version fo Deployment: ''
                    @ Error e)), w1)) \<and>
      (\<forall>result w1 e w2.
         Get ns (deploymentName opts) wk = (Inr result, w1) \<and>
         Update ns (result\<lparr>Spec := (Spec result)\<lparr>Replicas := Some (newReplicas opts),
              RevisionHistoryLimit := Some (newRhl opts)\<rparr>\<rparr>) w1 = (Inl e, w2) \<longrightarrow>
         (if IsConflict e
          then RetryOnConflict DefaultRetry (Run_func1 (Deployments ns) opts) w =
                 OnError_loop (Steps DefaultRetry - Suc k) IsConflict
                   (Run_func1 (Deployments ns) opts) (Some e) w2
          else Run opts w = (Some (ErrorString (''update failed: '' @ Error e)), w2)))) \<and>
   (k < Steps DefaultRetry \<and> clusterRoleInterface cropts = Some ClusterRoles \<and>
    conflicted k (Run_cr_func1 ClusterRoles cropts) None cw = Some (clastErr, cwk) \<longrightarrow>
      (\<forall>e w1. Get [] (clusterRoleName cropts) cwk = (Inl e, w1) \<longrightarrow>
         Run_cr cropts cw =
           (Some (ErrorString (''update failed: failed to get latest version fo Deployment: ''
                    @ Error e)), w1)) \<and>
      (\<forall>result w1 e w2.
         Get [] (clusterRoleName cropts) cwk = (Inr result, w1) \<and>
         Update [] (result\<lparr>Rules := Rules result @
              [\<lparr>Verbs = Split (newVerbs cropts) CHR '','',
                APIGroups = Split (newApiGroups cropts) CHR '','',
                Resources = Split (newResources cropts) CHR '',''\<rparr>]\<rparr>) w1 = (Inl e, w2) \<longrightarrow>
         (if IsConflict e
          then RetryOnConflict DefaultRetry (Run_cr_func1 ClusterRoles cropts) cw =
                 OnError_loop (Steps DefaultRetry - Suc k) IsConflict
                   (Run_cr_func1 ClusterRoles cropts) (Some e) w2
          else Run_cr cropts cw = (Some (ErrorString (''update failed: '' @ Error e)), w2))))"
proof (intro conjI impI allI)
  fix e w1
  assume a: "k < Steps DefaultRetry \<and> deploymentsClient opts = Some (Deployments ns) \<and>
    conflicted k (Run_func1 (Deployments ns) opts) None w = Some (lastErr, wk)"
    and g: "Get ns (deploymentName opts) wk = (Inl e, w1)"
  from a have r: "RetryOnConflict DefaultRetry (Run_func1 (Deployments ns) opts) w =
      (Some (Errorf_v ''failed to get latest version fo Deployment: '' e), w1)"
    using RetryOnConflict_after_conflicts[of k "Run_func1 (Deployments ns) opts" w lastErr wk]
    by (simp add: Run_func1_get_failed[OF g])
  show "Run opts w =
      (Some (ErrorString (''update failed: failed to get latest version fo Deployment: ''
                    @ Error e)), w1)"
    using a r by (simp add: Run_def Errorf_v_def)
next
  fix result w1 e w2
  assume a: "k < Steps DefaultRetry \<and> deploymentsClient opts = Some (Deployments ns) \<and>
    conflicted k (Run_func1 (Deployments ns) opts) None w = Some (lastErr, wk)"
    and g: "Get ns (deploymentName opts) wk = (Inr result, w1) \<and>
         Update ns (result\<lparr>Spec := (Spec result)\<lparr>Replicas := Some (newReplicas opts),
              RevisionHistoryLimit := Some (newRhl opts)\<rparr>\<rparr>) w1 = (Inl e, w2)"
  from g have f: "Run_func1 (Deployments ns) opts wk = (Some e, w2)"
    using Run_func1_update_failed by blast
  from a have r: "RetryOnConflict DefaultRetry (Run_func1 (Deployments ns) opts) w =
      (if IsConflict e
       then OnError_loop (Steps DefaultRetry - Suc k) IsConflict
              (Run_func1 (Deployments ns) opts) (Some e) w2
       else (Some e, w2))"
    using RetryOnConflict_after_conflicts[of k "Run_func1 (Deployments ns) opts" w lastErr wk]
    by (simp add: f)
  show "if IsConflict e
        then RetryOnConflict DefaultRetry (Run_func1 (Deployments ns) opts) w =
               OnError_loop (Steps DefaultRetry - Suc k) IsConflict
                 (Run_func1 (Deployments ns) opts) (Some e) w2
        else Run opts w = (Some (ErrorString (''update failed: '' @ Error e)), w2)"
    using a r by (simp add: Run_def Errorf_v_def)
next
  fix e w1
  assume a: "k < Steps DefaultRetry \<and> clusterRoleInterface cropts = Some ClusterRoles \<and>
    conflicted k (Run_cr_func1 ClusterRoles cropts) None cw = Some (clastErr, cwk)"
    and g: "Get [] (clusterRoleName cropts) cwk = (Inl e, w1)"
  from a have r: "RetryOnConflict DefaultRetry (Run_cr_func1 ClusterRoles cropts) cw =
      (Some (Errorf_v ''failed to get latest version fo Deployment: '' e), w1)"
    using RetryOnConflict_after_conflicts[of k "Run_cr_func1 ClusterRoles cropts" cw clastErr cwk]
    by (simp add: Run_cr_func1_get_failed[OF g])
  show "Run_cr cropts cw =
      (Some (ErrorString (''update failed: failed to get latest version fo Deployment: ''
                    @ Error e)), w1)"
    using a r by (simp add: Run_cr_def Errorf_v_def)
next
  fix result w1 e w2
  assume a: "k < Steps DefaultRetry \<and> clusterRoleInterface cropts = Some ClusterRoles \<and>
    conflicted k (Run_cr_func1 ClusterRoles cropts) None cw = Some (clastErr, cwk)"
    and g: "Get [] (clusterRoleName cropts) cwk = (Inr result, w1) \<and>
         Update [] (result\<lparr>Rules := Rules result @
              [\<lparr>Verbs = Split (newVerbs cropts) CHR '','',
                APIGroups = Split (newApiGroups cropts) CHR '','',
                Resources = Split (newResources cropts) CHR '',''\<rparr>]\<rparr>) w1 = (Inl e, w2)"
  from g have f: "Run_cr_func1 ClusterRoles cropts cwk = (Some e, w2)"
    using Run_cr_func1_update_failed by blast
  from a have r: "RetryOnConflict DefaultRetry (Run_cr_func1 ClusterRoles cropts) cw =
      (if IsConflict e
       then OnError_loop (Steps DefaultRetry - Suc k) IsConflict
              (Run_cr_func1 ClusterRoles cropts) (Some e) w2
       else (Some e, w2))"
    using RetryOnConflict_after_conflicts[of k "Run_cr_func1 ClusterRoles cropts" cw clastErr cwk]
    by (simp add: f)
  show "if IsConflict e
        then RetryOnConflict DefaultRetry (Run_cr_func1 ClusterRoles cropts) cw =
               OnError_loop (Steps DefaultRetry - Suc k) IsConflict
                 (Run_cr_func1 ClusterRoles cropts) (Some e) w2
        else Run_cr cropts cw = (Some (ErrorString (''update failed: '' @ Error e)), w2)"
    using a r by (simp add: Run_cr_def Errorf_v_def)
qed

theorem only_conflicts_are_retried_witness:
  "Run web_options (cluster_with ''default'' (web 3 10)
        [Proceed, Rival id, Fail (ErrorString ''connection refused'')]) =
     (Some (ErrorString
        ''update failed: failed to get latest version fo Deployment: connection refused''),
      \<lparr>objects = [(''default'', ''web'') \<mapsto> (web 3 10)\<lparr>ResourceVersion := 8\<rparr>],
       pending = [],
       requests = [GET ''default'' ''web'', PUT ''default'' ''web'', GET ''default'' ''web''],
       landed = 0\<rparr>) \<and>
   Run web_options (cluster_with ''default'' (web 3 10)
        [Proceed, Fail (StatusError StatusReasonOther ''forbidden'')]) =
     (Some (ErrorString ''update failed: forbidden''),
      \<lparr>objects = [(''default'', ''web'') \<mapsto> web 3 10],
       pending = [],
       requests = [GET ''default'' ''web'', PUT ''default'' ''web''],
       landed = 0\<rparr>) \<and>
   fst (Run web_options (cluster_with ''default'' (web 3 10) [Proceed, Rival id])) = None \<and>
   requests (snd (Run web_options (cluster_with ''default'' (web 3 10) [Proceed, Rival id]))) =
     [GET ''default'' ''web'', PUT ''default'' ''web'', GET ''default'' ''web'',
      PUT ''default'' ''web''] \<and>
   Run_cr viewer_options (cluster_with '''' viewer
        [Fail (StatusError StatusReasonConflict ''stale read'')]) =
     (Some (ErrorString
        ''update failed: failed to get latest version fo Deployment: stale read''),
      \<lparr>objects = [('''', ''viewer'') \<mapsto> viewer], pending = [],
       requests = [GET '''' ''viewer''], landed = 0\<rparr>)"
proof -
  let ?f = "Run_func1 (Deployments ''default'') web_options"
  let ?w = "cluster_with ''default'' (web 3 10)
        [Proceed, Rival id, Fail (ErrorString ''connection refused'')]"
  let ?wk = "\<lparr>objects = [(''default'', ''web'') \<mapsto> (web 3 10)\<lparr>ResourceVersion := 8\<rparr>],
       pending = [Fail (ErrorString ''connection refused'')],
       requests = [GET ''default'' ''web'', PUT ''default'' ''web''],
       landed = 0\<rparr> :: Deployment cluster"
  have s: "0 < Steps DefaultRetry" "1 < Steps DefaultRetry" by (simp_all add: DefaultRetry_def)
  have c: "deploymentsClient web_options = Some (Deployments ''default'')"
    "deploymentName web_options = ''web''"
    "clusterRoleInterface viewer_options = Some ClusterRoles"
    "clusterRoleName viewer_options = ''viewer''"
    by (simp_all add: web_options_def viewer_options_def)
  have k1: "conflicted 1 ?f None ?w = Some (Some (NewConflict ''web''), ?wk)"
    by (simp add: Run_func1_def store_defs example_defs web_options_def NewConflict_def)
  have a: "Run web_options ?w =
     (Some (ErrorString
        ''update failed: failed to get latest version fo Deployment: connection refused''),
      ?wk\<lparr>pending := [],
           requests := [GET ''default'' ''web'', PUT ''default'' ''web'', GET ''default'' ''web'']\<rparr>)"
    using only_conflicts_are_retried[where k = 1 and opts = web_options and ns = "''default''"
        and w = ?w and lastErr = "Some (NewConflict ''web'')" and wk = ?wk, THEN conjunct1]
      s c k1
    by (simp add: store_defs)
  let ?w2 = "cluster_with ''default'' (web 3 10)
        [Proceed, Fail (StatusError StatusReasonOther ''forbidden'')]"
  have b: "Run web_options ?w2 =
     (Some (ErrorString ''update failed: forbidden''),
      \<lparr>objects = [(''default'', ''web'') \<mapsto> web 3 10],
       pending = [],
       requests = [GET ''default'' ''web'', PUT ''default'' ''web''],
       landed = 0\<rparr>)"
    using only_conflicts_are_retried[where k = 0 and opts = web_options and ns = "''default''"
        and w = ?w2 and lastErr = None and wk = ?w2, THEN conjunct1] s c
    by (simp add: store_defs example_defs web_options_def)
  let ?w3 = "cluster_with ''default'' (web 3 10) [Proceed, Rival id]"
  have "RetryOnConflict DefaultRetry ?f ?w3 =
      OnError_loop (Steps DefaultRetry - Suc 0) IsConflict ?f (Some (NewConflict ''web''))
        \<lparr>objects = [(''default'', ''web'') \<mapsto> (web 3 10)\<lparr>ResourceVersion := 8\<rparr>],
         pending = [], requests = [GET ''default'' ''web'', PUT ''default'' ''web''],
         landed = 0\<rparr>"
    using only_conflicts_are_retried[where k = 0 and opts = web_options and ns = "''default''"
        and w = ?w3 and lastErr = None and wk = ?w3, THEN conjunct1] s c
    by (simp add: store_defs example_defs web_options_def NewConflict_def)
  then have d: "fst (Run web_options ?w3) = None \<and>
     requests (snd (Run web_options ?w3)) =
       [GET ''default'' ''web'', PUT ''default'' ''web'', GET ''default'' ''web'',
        PUT ''default'' ''web'']"
    by (simp add: Run_def c DefaultRetry_def numeral_eq_Suc Run_func1_def store_defs
        example_defs web_options_def)
  have nv: "Name viewer = ''viewer''" by (simp add: viewer_def)
  let ?w4 = "cluster_with '''' viewer [Fail (StatusError StatusReasonConflict ''stale read'')]"
  have e: "Run_cr viewer_options ?w4 =
     (Some (ErrorString
        ''update failed: failed to get latest version fo Deployment: stale read''),
      \<lparr>objects = [('''', ''viewer'') \<mapsto> viewer], pending = [],
       requests = [GET '''' ''viewer''], landed = 0\<rparr>)"
    using only_conflicts_are_retried[where k = 0 and cropts = viewer_options and cw = ?w4
        and clastErr = None and cwk = ?w4, THEN conjunct2] s c
    by (simp add: store_defs cluster_with_def nv)
  from a b d e show ?thesis by (simp add: example_defs)
qed

section \<open>Claims about the ClusterRole editor\<close>

lemma Split_not_Nil: "Split s sep \<noteq> []"
  by (induction s) (auto split: list.splits)

lemma Run_cr_func1_success:
  assumes "Run_cr_func1 client opts w = (None, w')"
  shows "\<exists>(result :: ClusterRole) stored.
     objects w' ([], Name result) = Some stored \<and>
     Rules stored = Rules result @
        [\<lparr>Verbs = Split (newVerbs opts) CHR '','',
          APIGroups = Split (newApiGroups opts) CHR '','',
          Resources = Split (newResources opts) CHR '',''\<rparr>]"
proof -
  let ?rule = "\<lparr>Verbs = Split (newVerbs opts) CHR '','',
          APIGroups = Split (newApiGroups opts) CHR '','',
          Resources = Split (newResources opts) CHR '',''\<rparr>"
  obtain r1 w1 where g: "Get [] (clusterRoleName opts) w = (r1, w1)" by fastforce
  with assms obtain result where r1: "r1 = Inr result"
    by (cases r1) (auto simp: Run_cr_func1_def)
  let ?r = "result\<lparr>Rules := Rules result @ [?rule]\<rparr>"
  obtain r2 w2 where u: "Update [] ?r w1 = (r2, w2)" by fastforce
  with assms g r1 obtain stored where r2: "r2 = Inr stored" "w2 = w'"
    by (cases r2) (auto simp: Run_cr_func1_def Let_def)
  from Update_success_stored[of "[]" ?r w1 stored w'] u r2
  have "objects w' ([], Name result) = Some stored" "\<exists>v. stored = ?r\<lparr>ResourceVersion := v\<rparr>"
    by auto
  then have "objects w' ([], Name result) = Some stored \<and> Rules stored = Rules result @ [?rule]"
    by auto
  then show ?thesis by blast
qed

lemma Run_cr_func1_quiet:
  assumes "pending w = []" "objects w ([], name) = Some role" "Name role = name"
    "clusterRoleName opts = name"
  shows "Run_cr_func1 client opts w =
     (None, w\<lparr>requests := requests w @ [GET [] name, PUT [] name],
        objects := (objects w)(([], name) \<mapsto>
           role\<lparr>Rules := Rules role @
               [\<lparr>Verbs = Split (newVerbs opts) CHR '','',
                 APIGroups = Split (newApiGroups opts) CHR '','',
                 Resources = Split (newResources opts) CHR '',''\<rparr>],
             ResourceVersion := Suc (ResourceVersion role)\<rparr>),
        landed := Suc (landed w)\<rparr>)"
  using assms by (simp add: Run_cr_func1_def Get_quiet Update_quiet)

lemma NewCmdEdit_cr_quiet:
  assumes "pending w = []" "objects w ([], name) = Some role" "Name role = name" "name \<noteq> []"
    "ToRESTConfig cf = Inr config" "NewForConfig config = None"
    "cr_positional line = [name]"
    "verbs line = Some v" "v \<noteq> []" "resources line = Some r" "r \<noteq> []"
  shows "NewCmdEdit_cr cf line w =
     (None, w\<lparr>requests := requests w @ [GET [] name, PUT [] name],
        objects := (objects w)(([], name) \<mapsto>
           role\<lparr>Rules := Rules role @
               [\<lparr>Verbs = Split v CHR '','',
                 APIGroups = Split (case groups line of None \<Rightarrow> [] | Some g \<Rightarrow> g) CHR '','',
                 Resources = Split r CHR '',''\<rparr>],
             ResourceVersion := Suc (ResourceVersion role)\<rparr>),
        landed := Suc (landed w)\<rparr>)"
proof -
  let ?g = "case groups line of None \<Rightarrow> [] | Some g \<Rightarrow> g"
  let ?o2 = "\<lparr>configFlags = cf, args = [name], clusterRoleInterface = Some ClusterRoles,
      newVerbs = v, newApiGroups = ?g, newResources = r, clusterRoleName = name\<rparr>"
  have "NewCmdEdit_cr cf line w = Run_cr ?o2 w"
    using assms(4-11)
    by (simp add: NewCmdEdit_cr_def NewEditClusterRoleOptions_def RunE_cr_def Complete_cr_def
        Validate_cr_def Let_def split: option.split)
  also have "\<dots> = (None, w\<lparr>requests := requests w @ [GET [] name, PUT [] name],
        objects := (objects w)(([], name) \<mapsto>
           role\<lparr>Rules := Rules role @
               [\<lparr>Verbs = Split v CHR '','', APIGroups = Split ?g CHR '','',
                 Resources = Split r CHR '',''\<rparr>],
             ResourceVersion := Suc (ResourceVersion role)\<rparr>),
        landed := Suc (landed w)\<rparr>)"
    using Run_cr_func1_quiet[OF assms(1-3), of ?o2 ClusterRoles]
    by (simp add: Run_cr_def RetryOnConflict_success)
  finally show ?thesis .
qed

lemmas editor_cr_defs = NewCmdEdit_cr_def NewEditClusterRoleOptions_def RunE_cr_def
  Complete_cr_def Validate_cr_def Run_cr_def Run_cr_func1_def RetryOnConflict_def
  DefaultRetry_def numeral_eq_Suc

text \<open>
  Claim C10. Every rule the ClusterRole editor appends has non-empty verbs, resources
  and apiGroups lists: when the \<open>--groups\<close> flag is omitted or empty, the appended
  rule's apiGroups is the one-element list containing the empty string, never an
  empty list.

  Whenever the command returns no error, for every script of events: the role it has
  stored ends in a rule whose three lists are the splits of the three flags, none of
  them is empty, and without \<open>--groups\<close> (or with an empty one) the apiGroups are the
  one empty string.
\<close>

theorem appended_rule_lists_not_empty:
  assumes "NewCmdEdit_cr cf line w = (None, w')"
  shows "\<exists>name role. objects w' ([], name) = Some role \<and> Rules role \<noteq> [] \<and>
     Verbs (last (Rules role)) =
       Split (case verbs line of None \<Rightarrow> [] | Some v \<Rightarrow> v) CHR '','' \<and>
     Resources (last (Rules role)) =
       Split (case resources line of None \<Rightarrow> [] | Some v \<Rightarrow> v) CHR '','' \<and>
     APIGroups (last (Rules role)) =
       Split (case groups line of None \<Rightarrow> [] | Some v \<Rightarrow> v) CHR '','' \<and>
     Verbs (last (Rules role)) \<noteq> [] \<and> Resources (last (Rules role)) \<noteq> [] \<and>
     APIGroups (last (Rules role)) \<noteq> [] \<and>
     (groups line = None \<or> groups line = Some [] \<longrightarrow> APIGroups (last (Rules role)) = [[]])"
proof -
  let ?o0 = "NewEditClusterRoleOptions cf"
  let ?o1 = "?o0\<lparr>newVerbs := (case verbs line of None \<Rightarrow> newVerbs ?o0 | Some v \<Rightarrow> v),
                  newApiGroups := (case groups line of None \<Rightarrow> newApiGroups ?o0 | Some v \<Rightarrow> v),
                  newResources := (case resources line of None \<Rightarrow> newResources ?o0 | Some v \<Rightarrow> v)\<rparr>"
  from assms have e: "RunE_cr ?o1 (cr_positional line) w = (None, w')"
    by (simp add: NewCmdEdit_cr_def Let_def)
  then obtain o2 where c: "Complete_cr (cr_positional line) ?o1 = (None, o2)"
    and r: "Run_cr o2 w = (None, w')"
    by (auto simp: RunE_cr_def split: prod.splits option.splits)
  from c have f: "newVerbs o2 = (case verbs line of None \<Rightarrow> [] | Some v \<Rightarrow> v)"
    "newResources o2 = (case resources line of None \<Rightarrow> [] | Some v \<Rightarrow> v)"
    "newApiGroups o2 = (case groups line of None \<Rightarrow> [] | Some v \<Rightarrow> v)"
    by (auto simp: Complete_cr_def Let_def NewEditClusterRoleOptions_def
        split: if_splits sum.splits option.splits)
  from r obtain client where
    "RetryOnConflict DefaultRetry (Run_cr_func1 client o2) w = (None, w')"
    by (auto simp: Run_cr_def split: option.splits prod.splits)
  from RetryOnConflict_success_last[OF this] obtain w0 where
    "Run_cr_func1 client o2 w0 = (None, w')" by blast
  from Run_cr_func1_success[OF this] obtain result :: ClusterRole and stored where
    s: "objects w' ([], Name result) = Some stored"
      "Rules stored = Rules result @
        [\<lparr>Verbs = Split (newVerbs o2) CHR '','',
          APIGroups = Split (newApiGroups o2) CHR '','',
          Resources = Split (newResources o2) CHR '',''\<rparr>]"
    by blast
  have g: "groups line = None \<or> groups line = Some [] \<longrightarrow>
      Split (case groups line of None \<Rightarrow> [] | Some v \<Rightarrow> v) CHR '','' = [[]]"
    by auto
  from s f g show ?thesis
    by (intro exI[of _ "Name result"] exI[of _ stored]) (simp add: Split_not_Nil)
qed

theorem appended_rule_lists_not_empty_witness:
  "\<exists>name role.
     objects (snd (NewCmdEdit_cr (kubeconfig '''' ''default'')
        \<lparr>cr_positional = [''viewer''], verbs = Some ''list,watch'', groups = None,
         resources = Some ''configmaps''\<rparr>
        (cluster_with '''' viewer []))) ('''', name) = Some role \<and>
     Verbs (last (Rules role)) = [''list'', ''watch''] \<and>
     Resources (last (Rules role)) = [''configmaps''] \<and>
     APIGroups (last (Rules role)) = ['''']"
proof -
  let ?line = "\<lparr>cr_positional = [''viewer''], verbs = Some ''list,watch'', groups = None,
         resources = Some ''configmaps''\<rparr>"
  let ?run = "NewCmdEdit_cr (kubeconfig '''' ''default'') ?line (cluster_with '''' viewer [])"
  have "fst ?run = None"
    by (simp add: editor_cr_defs store_defs example_defs)
  then have "?run = (None, snd ?run)" by (simp add: prod_eq_iff)
  from appended_rule_lists_not_empty[OF this] show ?thesis by simp blast
qed

text \<open>
  Claim C7. The ClusterRole editor appends exactly one new rule, built by
  comma-splitting the verbs, resources and groups flags, to the end of the role's
  existing rule sequence, never replacing or merging existing rules and never
  deduplicating, so running it twice with the same flags yields two duplicate rule
  entries.

  On a store where no other writer and no fault interferes, with one positional
  argument that names an existing role and non-empty \<open>--verbs\<close> and \<open>--resources\<close>:
  the first run stores the old rules followed by the new rule, whatever the old rules
  are, and the second run the old rules followed by the new rule twice. The scenario of
  the specification is proved after it.
\<close>

theorem rule_appended_each_run:
  assumes "pending w = []" "objects w ([], name) = Some role" "Name role = name" "name \<noteq> []"
    "ToRESTConfig cf = Inr config" "NewForConfig config = None"
    "cr_positional line = [name]"
    "verbs line = Some v" "v \<noteq> []" "resources line = Some r" "r \<noteq> []"
  shows "\<exists>w1 w2 role1 role2.
     NewCmdEdit_cr cf line w = (None, w1) \<and> objects w1 ([], name) = Some role1 \<and>
     Rules role1 = Rules role @
       [\<lparr>Verbs = Split v CHR '','',
         APIGroups = Split (case groups line of None \<Rightarrow> [] | Some g \<Rightarrow> g) CHR '','',
         Resources = Split r CHR '',''\<rparr>] \<and>
     NewCmdEdit_cr cf line w1 = (None, w2) \<and> objects w2 ([], name) = Some role2 \<and>
     Rules role2 = Rules role @
       [\<lparr>Verbs = Split v CHR '','',
         APIGroups = Split (case groups line of None \<Rightarrow> [] | Some g \<Rightarrow> g) CHR '','',
         Resources = Split r CHR '',''\<rparr>,
        \<lparr>Verbs = Split v CHR '','',
         APIGroups = Split (case groups line of None \<Rightarrow> [] | Some g \<Rightarrow> g) CHR '','',
         Resources = Split r CHR '',''\<rparr>]"
proof -
  let ?rule = "\<lparr>Verbs = Split v CHR '','',
         APIGroups = Split (case groups line of None \<Rightarrow> [] | Some g \<Rightarrow> g) CHR '','',
         Resources = Split r CHR '',''\<rparr>"
  let ?role1 = "role\<lparr>Rules := Rules role @ [?rule],
                     ResourceVersion := Suc (ResourceVersion role)\<rparr>"
  let ?w1 = "w\<lparr>requests := requests w @ [GET [] name, PUT [] name],
        objects := (objects w)(([], name) \<mapsto> ?role1),
        landed := Suc (landed w)\<rparr>"
  have first: "NewCmdEdit_cr cf line w = (None, ?w1)"
    by (rule NewCmdEdit_cr_quiet[OF assms])
  have q1: "pending ?w1 = []" "objects ?w1 ([], name) = Some ?role1" "Name ?role1 = name"
    using assms(1,3) by simp_all
  let ?role2 = "?role1\<lparr>Rules := Rules ?role1 @ [?rule],
                     ResourceVersion := Suc (ResourceVersion ?role1)\<rparr>"
  let ?w2 = "?w1\<lparr>requests := requests ?w1 @ [GET [] name, PUT [] name],
        objects := (objects ?w1)(([], name) \<mapsto> ?role2),
        landed := Suc (landed ?w1)\<rparr>"
  have second: "NewCmdEdit_cr cf line ?w1 = (None, ?w2)"
    by (rule NewCmdEdit_cr_quiet[OF q1 assms(4-11)])
  have "objects ?w1 ([], name) = Some ?role1 \<and> Rules ?role1 = Rules role @ [?rule] \<and>
        objects ?w2 ([], name) = Some ?role2 \<and> Rules ?role2 = Rules role @ [?rule, ?rule]"
    by simp
  with first second show ?thesis by blast
qed

theorem rule_appended_each_run_witness:
  "\<exists>w1 w2 role1 role2.
     NewCmdEdit_cr (kubeconfig '''' ''default'')
        \<lparr>cr_positional = [''viewer''], verbs = Some ''list,watch'', groups = Some '''',
         resources = Some ''configmaps''\<rparr> (cluster_with '''' viewer []) = (None, w1) \<and>
     objects w1 ('''', ''viewer'') = Some role1 \<and>
     Rules role1 =
       [\<lparr>Verbs = [''get''], APIGroups = [''''], Resources = [''pods'']\<rparr>,
        \<lparr>Verbs = [''list'', ''watch''], APIGroups = [''''], Resources = [''configmaps'']\<rparr>] \<and>
     NewCmdEdit_cr (kubeconfig '''' ''default'')
        \<lparr>cr_positional = [''viewer''], verbs = Some ''list,watch'', groups = Some '''',
         resources = Some ''configmaps''\<rparr> w1 = (None, w2) \<and>
     objects w2 ('''', ''viewer'') = Some role2 \<and>
     Rules role2 =
       [\<lparr>Verbs = [''get''], APIGroups = [''''], Resources = [''pods'']\<rparr>,
        \<lparr>Verbs = [''list'', ''watch''], APIGroups = [''''], Resources = [''configmaps'']\<rparr>,
        \<lparr>Verbs = [''list'', ''watch''], APIGroups = [''''], Resources = [''configmaps'']\<rparr>]"
  using rule_appended_each_run[of "cluster_with '''' viewer []" "''viewer''" viewer
      "kubeconfig '''' ''default''" "RESTConfig None"
      "\<lparr>cr_positional = [''viewer''], verbs = Some ''list,watch'', groups = Some '''',
         resources = Some ''configmaps''\<rparr>" "''list,watch''" "''configmaps''"]
  by (simp add: example_defs)

end
